theory Spec2Isabelle
  imports Complex_Main "HOL-Library.Word" "HOL-Library.Signed_Division"
begin

unbundle bit_operations_syntax

section \<open>Tokens and errors\<close>

text \<open>
  The scanner is an external collaborator; the evaluator only looks at a token's kind and
  its text. The kinds are those the parser switches on. \<open>scan.Error\<close> and \<open>scan.Number\<close>
  are written \<open>ErrorTok\<close> and \<open>NumberTok\<close>, since \<open>Error\<close> and \<open>Number\<close> name other things here.
\<close>

datatype TokType =
    EOF | ErrorTok | Newline | Assign | Identifier | LeftBrack | LeftParen
  | NumberTok | Operator | Rational | RightBrack | RightParen

record Token =
  Type :: TokType
  Text :: string

text \<open>
  \<open>value.Error\<close> is a string in the source. Each message the source builds is one
  constructor here, carrying what the message formats:
  \<^item> \<open>DivisionByZero\<close>: "division by zero"; \<open>ModuloByZero\<close>: "modulo by zero";
  \<^item> \<open>NegativeExponent\<close>: "negative exponent not implemented";
  \<^item> \<open>ZeroDenominator\<close>: "zero denominator in rational";
  \<^item> \<open>IllegalShiftCount c\<close>: "illegal shift count %d"; \<open>IllegalShiftCountType\<close>:
    "illegal shift count type";
  \<^item> \<open>LengthMismatch m n\<close>: "length mismatch: %d %d";
  \<^item> \<open>Panic s\<close>: a \<open>panic\<close> with the plain string \<open>s\<close>;
  \<^item> \<open>TypeAssertion\<close>: the run-time panic of a failed type assertion \<open>u.(T)\<close>;
  \<^item> \<open>UnknownOperator\<close>, \<open>UnsupportedOperation\<close>: the two failures of operator dispatch;
  \<^item> \<open>At file line e\<close>: the parser's \<open>errorf\<close>, which puts file and line on the head of
    the message \<open>e\<close>; the remaining constructors are the parser's messages.
\<close>

datatype Error =
    DivisionByZero
  | ModuloByZero
  | NegativeExponent
  | ZeroDenominator
  | IllegalShiftCount int
  | IllegalShiftCountType
  | LengthMismatch nat nat
  | Panic string
  | TypeAssertion
  | UnknownOperator string
  | UnsupportedOperation string nat
  | At string nat Error
  | Quoted Token
  | Unexpected Token
  | UnexpectedQuoted Token
  | UnexpectedAfterExpression Token
  | ExpectedRightParen Token
  | ExpectedRightBrack Token
  | Undefined string
  | BadNumber string Error

section \<open>The value model\<close>

text \<open>
  A \<open>Value\<close> is one of four kinds. The source's \<open>Int\<close> holds an \<open>int64\<close>; its constructor
  is written \<open>IntV\<close> because \<open>Int\<close> is taken by set intersection. \<open>BigInt\<close> wraps a
  \<open>big.Int\<close>, \<open>BigRat\<close> a \<open>big.Rat\<close> (always in lowest terms with a positive denominator,
  as \<^typ>\<open>rat\<close> is), \<open>Vector\<close> a slice of values.
\<close>

datatype Value = IntV "64 word" | BigInt int | BigRat rat | Vector "Value list"

type_synonym valueType = nat

text \<open>
  Modelled from the spec: the declaration of \<open>valueType\<close> and of its constants is not
  part of the sources at hand. The spec's data model gives the ranks: SmallInt 0, BigInt 1,
  BigRational 2, Vector 3; \<open>numType\<close> is the number of ranks, the size of an operator's table.
\<close>

definition intType :: valueType where [simp]: "intType = 0"
definition bigIntType :: valueType where [simp]: "bigIntType = 1"
definition bigRatType :: valueType where [simp]: "bigRatType = 2"
definition vectorType :: valueType where [simp]: "vectorType = 3"
definition numType :: nat where [simp]: "numType = 4"

text \<open>Modelled from the spec: \<open>whichType\<close>, the rank of a value, is not in the sources at hand.\<close>

fun whichType :: "Value \<Rightarrow> valueType" where
  "whichType (IntV x) = intType"
| "whichType (BigInt i) = bigIntType"
| "whichType (BigRat r) = bigRatType"
| "whichType (Vector xs) = vectorType"

text \<open>
  Modelled from the spec: \<open>shrink\<close> is not in the sources at hand. The spec: the result is
  shrunk to the lowest rank that represents it exactly; a BigInt that fits the native integer
  range becomes a SmallInt, a BigRational with denominator 1 becomes a BigInt or SmallInt.
\<close>

fun shrinkBigInt :: "int \<Rightarrow> Value" where
  "shrinkBigInt i =
     (if - (2 ^ 63) \<le> i \<and> i < 2 ^ 63 then IntV (word_of_int i) else BigInt i)"

fun shrink :: "Value \<Rightarrow> Value" where
  "shrink (IntV x) = IntV x"
| "shrink (BigInt i) = shrinkBigInt i"
| "shrink (BigRat r) =
     (if snd (quotient_of r) = 1 then shrinkBigInt (fst (quotient_of r)) else BigRat r)"
| "shrink (Vector xs) = Vector xs"

text \<open>
  \<open>ToType\<close>. The method of \<open>Vector\<close> is in the sources (vector.go) and is translated with
  its messages as they are. Modelled from the spec: the methods of the three scalar kinds
  are not in the sources at hand. The spec: \<open>convert\<close> promotes a value to a requested
  rank; converting a BigRational to an integer rank is a contract violation, an error
  naming the attempted conversion. A scalar promoted to Vector rank is the vector of that
  one element, which is what \<open>binaryVectorOp\<close> needs of both its arguments.
\<close>

fun ToType :: "Value \<Rightarrow> valueType \<Rightarrow> Error + Value" where
  "ToType (IntV x) which =
     (if which = intType then Inr (IntV x)
      else if which = bigIntType then Inr (BigInt (sint x))
      else if which = bigRatType then Inr (BigRat (of_int (sint x)))
      else if which = vectorType then Inr (Vector [IntV x])
      else Inl (Panic ''Int.ToType''))"
| "ToType (BigInt i) which =
     (if which = intType then Inl (Panic ''big int to int'')
      else if which = bigIntType then Inr (BigInt i)
      else if which = bigRatType then Inr (BigRat (of_int i))
      else if which = vectorType then Inr (Vector [BigInt i])
      else Inl (Panic ''BigInt.ToType''))"
| "ToType (BigRat r) which =
     (if which = intType then Inl (Panic ''big rat to int'')
      else if which = bigIntType then Inl (Panic ''big rat to big int'')
      else if which = bigRatType then Inr (BigRat r)
      else if which = vectorType then Inr (Vector [BigRat r])
      else Inl (Panic ''BigRat.ToType''))"
| "ToType (Vector xs) which =
     (if which = intType then Inl (Panic ''bigint to int'')
      else if which = bigIntType then Inl (Panic ''vector to big int'')
      else if which = bigRatType then Inl (Panic ''vector to big rat'')
      else if which = vectorType then Inr (Vector xs)
      else Inl (Panic ''BigInt.ToType''))"

text \<open>Modelled from the spec: \<open>valueInt64\<close> (not in the sources at hand) wraps a native integer.\<close>

definition valueInt64 :: "64 word \<Rightarrow> Value" where
  "valueInt64 x = IntV x"

definition ValueSlice :: "Value list \<Rightarrow> Value" where
  "ValueSlice elem = Vector elem"

definition bigInt64 :: "64 word \<Rightarrow> Value" where
  "bigInt64 x = BigInt (sint x)"

definition bigRatTwoInt64s :: "64 word \<Rightarrow> 64 word \<Rightarrow> Error + Value" where
  "bigRatTwoInt64s x y =
     (if y = 0 then Inl ZeroDenominator else Inr (BigRat (Fract (sint x) (sint y))))"

definition bigRatInt64 :: "64 word \<Rightarrow> Error + Value" where
  "bigRatInt64 x = bigRatTwoInt64s x 1"

definition zero :: Value where "zero = valueInt64 0"
definition one :: Value where "one = valueInt64 1"
definition minusOne :: Value where "minusOne = valueInt64 (- 1)"

section \<open>Type-selection rules\<close>

definition binaryArithType :: "valueType \<Rightarrow> valueType \<Rightarrow> valueType" where
  "binaryArithType t1 t2 = (if t1 > t2 then t1 else t2)"

definition divType :: "valueType \<Rightarrow> valueType \<Rightarrow> valueType" where
  "divType t1 t2 = binaryArithType (if t1 = intType then bigIntType else t1) t2"

definition rationalType :: "valueType \<Rightarrow> valueType \<Rightarrow> valueType" where
  "rationalType t1 t2 = binaryArithType (if t1 < bigRatType then bigRatType else t1) t2"

section \<open>Binary operators\<close>

text \<open>
  A \<open>binaryFn\<close> takes the two operands, already converted to one rank. A \<open>binaryOp\<close> has
  its type-selection rule \<open>whichType\<close> (the field is written \<open>typeRule\<close>, \<open>whichType\<close> being
  the rank of a value) and the table \<open>fn\<close>, indexed by rank; a \<open>nil\<close> entry is \<open>None\<close>.
  Every operator's entry at \<open>vectorType\<close> is a closure that calls \<open>binaryVectorOp\<close> with
  an operator name written in the closure; the field \<open>vectorFn\<close> holds that name.
\<close>

type_synonym binaryFn = "Value \<Rightarrow> Value \<Rightarrow> Error + Value"

record binaryOp =
  typeRule :: "valueType \<Rightarrow> valueType \<Rightarrow> valueType"
  fn :: "valueType \<Rightarrow> binaryFn option"
  vectorFn :: string

text \<open>
  The type assertions \<open>u.(Int).x, v.(Int).x\<close> (and those to \<open>BigInt\<close> and \<open>BigRat\<close>)
  with which every table entry opens: the body runs on the two payloads, and an operand
  of another kind is the run-time panic of the assertion.
\<close>

fun ints :: "(64 word \<Rightarrow> 64 word \<Rightarrow> Error + Value) \<Rightarrow> binaryFn" where
  "ints f (IntV x) (IntV y) = f x y"
| "ints f u v = Inl TypeAssertion"

fun bigInts :: "(int \<Rightarrow> int \<Rightarrow> Error + Value) \<Rightarrow> binaryFn" where
  "bigInts f (BigInt i) (BigInt j) = f i j"
| "bigInts f u v = Inl TypeAssertion"

fun bigRats :: "(rat \<Rightarrow> rat \<Rightarrow> Error + Value) \<Rightarrow> binaryFn" where
  "bigRats f (BigRat i) (BigRat j) = f i j"
| "bigRats f u v = Inl TypeAssertion"

text \<open>
  \<open>op\<close> is a method of \<open>big.Int\<close> (\<open>big.Rat\<close>) that stores its result in the fresh \<open>z\<close>;
  here it is the function from the two operands to that result.
\<close>

definition binaryBigIntOp :: "Value \<Rightarrow> (int \<Rightarrow> int \<Rightarrow> int) \<Rightarrow> Value \<Rightarrow> Error + Value" where
  "binaryBigIntOp u op v = bigInts (\<lambda>i j. Inr (shrink (BigInt (op i j)))) u v"

definition binaryBigRatOp :: "Value \<Rightarrow> (rat \<Rightarrow> rat \<Rightarrow> rat) \<Rightarrow> Value \<Rightarrow> Error + Value" where
  "binaryBigRatOp u op v = bigRats (\<lambda>i j. Inr (shrink (BigRat (op i j)))) u v"

text \<open>
  The methods of \<open>math/big\<close> the table uses. \<open>Exp\<close> with a nil modulus is the power, and 1
  for an exponent that is not positive. \<open>Quo\<close> and \<open>Rem\<close> truncate towards zero; \<open>Div\<close>
  and \<open>Mod\<close> are Euclidean, with a remainder that is never negative.
\<close>

definition bigIntPow :: "int \<Rightarrow> int \<Rightarrow> int" where
  "bigIntPow j k = j ^ nat k"

definition bigQuo :: "int \<Rightarrow> int \<Rightarrow> int" where
  "bigQuo x y = x sdiv y"

definition bigRem :: "int \<Rightarrow> int \<Rightarrow> int" where
  "bigRem x y = x smod y"

definition bigDiv :: "int \<Rightarrow> int \<Rightarrow> int" where
  "bigDiv x y = sgn y * (x div \<bar>y\<bar>)"

definition bigMod :: "int \<Rightarrow> int \<Rightarrow> int" where
  "bigMod x y = x mod \<bar>y\<bar>"

definition toInt :: "bool \<Rightarrow> Value" where
  "toInt t = (if t then one else zero)"

text \<open>
  Modelled from the spec: the constant \<open>maxInt\<close> is not in the sources at hand. The spec:
  a shift count must be representable as a native unsigned value; the largest native
  signed integer is taken.
\<close>

definition maxInt :: int where
  "maxInt = 2 ^ 63 - 1"

definition shiftCountInt :: "64 word \<Rightarrow> Error + nat" where
  "shiftCountInt x =
     (if sint x < 0 \<or> sint x \<ge> maxInt then Inl (IllegalShiftCount (sint x))
      else Inr (nat (sint x)))"

fun shiftCount :: "Value \<Rightarrow> Error + nat" where
  "shiftCount (IntV x) = shiftCountInt x"
| "shiftCount (BigInt c) =
     (case shrink (BigInt c) of
        IntV x \<Rightarrow> shiftCountInt x
      | _ \<Rightarrow> Inl IllegalShiftCountType)"
| "shiftCount x = Inl IllegalShiftCountType"

definition add :: binaryOp where
  "add = \<lparr> typeRule = binaryArithType,
           fn = [intType \<mapsto> ints (\<lambda>x y. Inr (valueInt64 (x + y))),
                 bigIntType \<mapsto> (\<lambda>u v. binaryBigIntOp u (+) v),
                 bigRatType \<mapsto> (\<lambda>u v. binaryBigRatOp u (+) v)],
           vectorFn = ''+'' \<rparr>"

definition sub :: binaryOp where
  "sub = \<lparr> typeRule = binaryArithType,
           fn = [intType \<mapsto> ints (\<lambda>x y. Inr (valueInt64 (x - y))),
                 bigIntType \<mapsto> (\<lambda>u v. binaryBigIntOp u (-) v),
                 bigRatType \<mapsto> (\<lambda>u v. binaryBigRatOp u (-) v)],
           vectorFn = ''-'' \<rparr>"

definition mul :: binaryOp where
  "mul = \<lparr> typeRule = binaryArithType,
           fn = [intType \<mapsto> ints (\<lambda>x y. Inr (valueInt64 (x * y))),
                 bigIntType \<mapsto> (\<lambda>u v. binaryBigIntOp u (*) v),
                 bigRatType \<mapsto> (\<lambda>u v. binaryBigRatOp u (*) v)],
           vectorFn = ''*'' \<rparr>"

definition quo :: binaryOp where
  "quo = \<lparr> typeRule = rationalType,
           fn = [bigRatType \<mapsto> (\<lambda>u v.
                    case v of
                      BigRat x \<Rightarrow> if sgn x = 0 then Inl DivisionByZero else binaryBigRatOp u (/) v
                    | _ \<Rightarrow> Inl TypeAssertion)],
           vectorFn = ''/'' \<rparr>"

definition idiv :: binaryOp where
  "idiv = \<lparr> typeRule = binaryArithType,
            fn = [intType \<mapsto> ints (\<lambda>x y. if y = 0 then Inl DivisionByZero
                                            else Inr (valueInt64 (word_of_int (sint x sdiv sint y)))),
                  bigIntType \<mapsto> (\<lambda>u v.
                    case v of
                      BigInt x \<Rightarrow> if sgn x = 0 then Inl DivisionByZero else binaryBigIntOp u bigQuo v
                    | _ \<Rightarrow> Inl TypeAssertion)],
            vectorFn = ''idiv'' \<rparr>"

definition imod :: binaryOp where
  "imod = \<lparr> typeRule = binaryArithType,
            fn = [intType \<mapsto> ints (\<lambda>x y. if y = 0 then Inl ModuloByZero
                                            else Inr (valueInt64 (word_of_int (sint x smod sint y)))),
                  bigIntType \<mapsto> (\<lambda>u v.
                    case v of
                      BigInt x \<Rightarrow> if sgn x = 0 then Inl ModuloByZero else binaryBigIntOp u bigRem v
                    | _ \<Rightarrow> Inl TypeAssertion)],
            vectorFn = ''imod'' \<rparr>"

definition div_op :: binaryOp where
  "div_op = \<lparr> typeRule = divType,
              fn = [bigIntType \<mapsto> (\<lambda>u v.
                    case v of
                      BigInt x \<Rightarrow> if sgn x = 0 then Inl DivisionByZero else binaryBigIntOp u bigDiv v
                    | _ \<Rightarrow> Inl TypeAssertion)],
              vectorFn = ''div'' \<rparr>"

definition mod_op :: binaryOp where
  "mod_op = \<lparr> typeRule = divType,
              fn = [bigIntType \<mapsto> (\<lambda>u v.
                    case v of
                      BigInt x \<Rightarrow> if sgn x = 0 then Inl ModuloByZero else binaryBigIntOp u bigMod v
                    | _ \<Rightarrow> Inl TypeAssertion)],
              vectorFn = ''mod'' \<rparr>"

text \<open>
  \<open>pow\<close> at \<open>bigRatType\<close> reads the exponent \<open>v.(BigRat)\<close> first and switches on its sign;
  only then does it assert \<open>u.(BigRat)\<close>. It takes the numerator of the exponent and raises
  the numerator and the denominator of the base to it; \<open>SetFrac\<close> puts the quotient of the
  two, in lowest terms, into the fresh \<open>z\<close>, which is returned as it is.

  \<open>powBigRat\<close> is the entry on values: it gives the value that one call returns when the
  base and the exponent are different objects. The entry also writes: \<open>num\<close> and \<open>den\<close>
  are the numerator and the denominator of the base operand itself, and the two calls of
  \<open>Exp\<close> leave the powers there. The writes, and what is read when an operand is used
  again, are in \<open>powBigRatRef\<close> below, the same entry over a store; the lemma
  \<open>powBigRatRef_value\<close> relates the two.
\<close>

fun powBigRat :: binaryFn where
  "powBigRat u (BigRat rexp) =
     (if sgn rexp = 0 then Inr one
      else if sgn rexp = - 1 then Inl NegativeExponent
      else (case u of
              BigRat r \<Rightarrow>
                (let exp = fst (quotient_of rexp);
                     num = fst (quotient_of r);
                     den = snd (quotient_of r)
                 in Inr (BigRat (Fract (bigIntPow num exp) (bigIntPow den exp))))
            | _ \<Rightarrow> Inl TypeAssertion))"
| "powBigRat u v = Inl TypeAssertion"

fun powBigInt :: binaryFn where
  "powBigInt u (BigInt i) =
     (if sgn i = 0 then Inr one
      else if sgn i = - 1 then Inl NegativeExponent
      else binaryBigIntOp u bigIntPow (BigInt i))"
| "powBigInt u v = Inl TypeAssertion"

definition pow :: binaryOp where
  "pow = \<lparr> typeRule = divType,
           fn = [bigIntType \<mapsto> powBigInt, bigRatType \<mapsto> powBigRat],
           vectorFn = ''**'' \<rparr>"

definition and_op :: binaryOp where
  "and_op = \<lparr> typeRule = binaryArithType,
              fn = [intType \<mapsto> ints (\<lambda>x y. Inr (valueInt64 (x AND y))),
                    bigIntType \<mapsto> (\<lambda>u v. binaryBigIntOp u (AND) v)],
              vectorFn = ''&'' \<rparr>"

definition or_op :: binaryOp where
  "or_op = \<lparr> typeRule = binaryArithType,
             fn = [intType \<mapsto> ints (\<lambda>x y. Inr (valueInt64 (x OR y))),
                   bigIntType \<mapsto> (\<lambda>u v. binaryBigIntOp u (OR) v)],
             vectorFn = ''|'' \<rparr>"

definition xor_op :: binaryOp where
  "xor_op = \<lparr> typeRule = binaryArithType,
              fn = [intType \<mapsto> ints (\<lambda>x y. Inr (valueInt64 (x XOR y))),
                    bigIntType \<mapsto> (\<lambda>u v. binaryBigIntOp u (XOR) v)],
              vectorFn = ''^'' \<rparr>"

definition lsh :: binaryOp where
  "lsh = \<lparr> typeRule = divType,
           fn = [bigIntType \<mapsto> bigInts (\<lambda>i j.
                   case shiftCount (BigInt j) of
                     Inl e \<Rightarrow> Inl e
                   | Inr n \<Rightarrow> Inr (shrink (BigInt (push_bit n i))))],
           vectorFn = ''<<'' \<rparr>"

definition rsh :: binaryOp where
  "rsh = \<lparr> typeRule = divType,
           fn = [bigIntType \<mapsto> bigInts (\<lambda>i j.
                   case shiftCount (BigInt j) of
                     Inl e \<Rightarrow> Inl e
                   | Inr n \<Rightarrow> Inr (shrink (BigInt (drop_bit n i))))],
           vectorFn = ''>>'' \<rparr>"

text \<open>The six comparisons differ only in the relation and in the name.\<close>

definition comparison :: "(int \<Rightarrow> int \<Rightarrow> bool) \<Rightarrow> (rat \<Rightarrow> rat \<Rightarrow> bool) \<Rightarrow> string \<Rightarrow> binaryOp" where
  "comparison ri rr name =
     \<lparr> typeRule = binaryArithType,
       fn = [intType \<mapsto> ints (\<lambda>x y. Inr (toInt (ri (sint x) (sint y)))),
             bigIntType \<mapsto> bigInts (\<lambda>i j. Inr (toInt (ri i j))),
             bigRatType \<mapsto> bigRats (\<lambda>i j. Inr (toInt (rr i j)))],
       vectorFn = name \<rparr>"

definition eq_op :: binaryOp where "eq_op = comparison (=) (=) ''==''"
definition ne :: binaryOp where "ne = comparison (\<noteq>) (\<noteq>) ''!=''"
definition lt :: binaryOp where "lt = comparison (<) (<) ''<''"
definition le :: binaryOp where "le = comparison (\<le>) (\<le>) ''<=''"
definition gt :: binaryOp where "gt = comparison (>) (>) ''>''"
definition ge :: binaryOp where "ge = comparison (\<ge>) (\<ge>) ''>=''"

text \<open>\<open>min\<close> and \<open>max\<close> return one of the two (converted) operands as it is.\<close>

definition min_op :: binaryOp where
  "min_op = \<lparr> typeRule = binaryArithType,
              fn = [intType \<mapsto> (\<lambda>u v. ints (\<lambda>i j. if sint i < sint j then Inr u else Inr v) u v),
                    bigIntType \<mapsto> (\<lambda>u v. bigInts (\<lambda>i j. if i < j then Inr u else Inr v) u v),
                    bigRatType \<mapsto> (\<lambda>u v. bigRats (\<lambda>i j. if i < j then Inr u else Inr v) u v)],
              vectorFn = ''min'' \<rparr>"

definition max_op :: binaryOp where
  "max_op = \<lparr> typeRule = binaryArithType,
              fn = [intType \<mapsto> (\<lambda>u v. ints (\<lambda>i j. if sint i > sint j then Inr u else Inr v) u v),
                    bigIntType \<mapsto> (\<lambda>u v. bigInts (\<lambda>i j. if i > j then Inr u else Inr v) u v),
                    bigRatType \<mapsto> (\<lambda>u v. bigRats (\<lambda>i j. if i > j then Inr u else Inr v) u v)],
              vectorFn = ''min'' \<rparr>"

definition binaryOps :: "string \<Rightarrow> binaryOp option" where
  "binaryOps = map_of
     [(''+'', add), (''-'', sub), (''*'', mul), (''/'', quo),
      (''idiv'', idiv), (''imod'', imod), (''div'', div_op), (''mod'', mod_op),
      (''**'', pow), (''&'', and_op), (''|'', or_op), (''^'', xor_op),
      (''<<'', lsh), (''>>'', rsh),
      (''=='', eq_op), (''!='', ne), (''<'', lt), (''<='', le), (''>'', gt), (''>='', ge),
      (''min'', min_op), (''max'', max_op)]"

section \<open>Operator dispatch and vector broadcasting\<close>

definition sameLength :: "'a list \<Rightarrow> 'a list \<Rightarrow> Error + unit" where
  "sameLength v x =
     (if length v \<noteq> length x then Inl (LengthMismatch (length v) (length x)) else Inr ())"

text \<open>
  \<open>Binary\<close> and \<open>binaryVectorOp\<close> call each other: an operator's entry at \<open>vectorType\<close>
  calls \<open>binaryVectorOp\<close>, which calls \<open>Binary\<close> on the elements.

  \<open>binaryVectorOp\<close> is in the sources. Its three iterations over \<open>k\<close> are \<open>broadcastLeft\<close>
  (\<open>u.x[0]\<close> against each \<open>v.x[k]\<close>), \<open>broadcastRight\<close> (each \<open>u.x[k]\<close> against \<open>v.x[0]\<close>)
  and \<open>elementwise\<close> (\<open>u.x[k]\<close> against \<open>v.x[k]\<close>, for \<open>k\<close> ranging over \<open>u\<close>); the first
  element operation that panics ends the iteration with that panic.

  Modelled from the spec: \<open>Binary\<close> is not in the sources at hand. The spec's evaluation
  algorithm: look the operator up (an unknown symbol fails); compute the target rank with
  the operator's rule; if either operand is a Vector, dispatch to broadcasting, which here
  is the operator's entry at \<open>vectorType\<close> as the sources have it; otherwise convert both
  operands to the target rank and call the table entry for that rank, a missing entry
  being a failure. The shrinking of the raw result is done by the entries themselves
  (\<open>binaryBigIntOp\<close>, \<open>binaryBigRatOp\<close>), as the sources have it.

  These functions are on values: they give what a call returns as long as no operand has
  been written to. Every entry of the table writes to its new result only, except the one
  of \<open>**\<close> at \<open>bigRatType\<close>, which writes to its base operand. Where an operand is used
  again after a call (the element that is broadcast against a vector, a variable of the
  environment), the model is the one on references below: \<open>binaryVectorOpRef\<close>, and
  \<open>Eval\<close> and \<open>Line\<close> over a store.
\<close>

function Binary :: "Value \<Rightarrow> string \<Rightarrow> Value \<Rightarrow> Error + Value"
  and binaryVectorOp :: "Value \<Rightarrow> string \<Rightarrow> Value \<Rightarrow> Error + Value"
  and broadcastLeft :: "Value \<Rightarrow> string \<Rightarrow> Value list \<Rightarrow> Error + Value list"
  and broadcastRight :: "Value list \<Rightarrow> string \<Rightarrow> Value \<Rightarrow> Error + Value list"
  and elementwise :: "Value list \<Rightarrow> string \<Rightarrow> Value list \<Rightarrow> Error + Value list"
where
  "Binary u opName v =
     (case binaryOps opName of
        None \<Rightarrow> Inl (UnknownOperator opName)
      | Some op \<Rightarrow>
          (let which = typeRule op (whichType u) (whichType v) in
           if whichType u = vectorType \<or> whichType v = vectorType then
             (case ToType u which of
                Inl e \<Rightarrow> Inl e
              | Inr u' \<Rightarrow>
                  (case ToType v which of
                     Inl e \<Rightarrow> Inl e
                   | Inr v' \<Rightarrow> binaryVectorOp u' (vectorFn op) v'))
           else
             (case fn op which of
                None \<Rightarrow> Inl (UnsupportedOperation opName which)
              | Some f \<Rightarrow>
                  (case ToType u which of
                     Inl e \<Rightarrow> Inl e
                   | Inr u' \<Rightarrow>
                       (case ToType v which of
                          Inl e \<Rightarrow> Inl e
                        | Inr v' \<Rightarrow> f u' v')))))"
| "binaryVectorOp i op j =
     (case i of
        Vector u \<Rightarrow>
          (case j of
             Vector v \<Rightarrow>
               if length u = 1 then
                 (case broadcastLeft (u ! 0) op v of
                    Inl e \<Rightarrow> Inl e
                  | Inr n \<Rightarrow> Inr (ValueSlice n))
               else if length v = 1 then
                 (case broadcastRight u op (v ! 0) of
                    Inl e \<Rightarrow> Inl e
                  | Inr n \<Rightarrow> Inr (ValueSlice n))
               else
                 (case sameLength u v of
                    Inl e \<Rightarrow> Inl e
                  | Inr _ \<Rightarrow>
                      (case elementwise u op v of
                         Inl e \<Rightarrow> Inl e
                       | Inr n \<Rightarrow> Inr (ValueSlice n)))
           | _ \<Rightarrow> Inl TypeAssertion)
      | _ \<Rightarrow> Inl TypeAssertion)"
| "broadcastLeft x op [] = Inr []"
| "broadcastLeft x op (y # ys) =
     (case Binary x op y of
        Inl e \<Rightarrow> Inl e
      | Inr r \<Rightarrow> (case broadcastLeft x op ys of Inl e \<Rightarrow> Inl e | Inr rs \<Rightarrow> Inr (r # rs)))"
| "broadcastRight [] op y = Inr []"
| "broadcastRight (x # xs) op y =
     (case Binary x op y of
        Inl e \<Rightarrow> Inl e
      | Inr r \<Rightarrow> (case broadcastRight xs op y of Inl e \<Rightarrow> Inl e | Inr rs \<Rightarrow> Inr (r # rs)))"
| "elementwise [] op ys = Inr []"
| "elementwise (x # xs) op [] = Inl (Panic ''index out of range'')"
| "elementwise (x # xs) op (y # ys) =
     (case Binary x op y of
        Inl e \<Rightarrow> Inl e
      | Inr r \<Rightarrow> (case elementwise xs op ys of Inl e \<Rightarrow> Inl e | Inr rs \<Rightarrow> Inr (r # rs)))"
  by pat_completeness auto

text \<open>
  Termination: a conversion adds at most the wrapping of a scalar into a vector of one
  element, and only to an operand that is no vector; each element of a vector is smaller
  than the vector.
\<close>

lemma ToType_size:
  "ToType u t = Inr u' \<Longrightarrow> size u' \<le> size u + 2 \<and> (whichType u = vectorType \<longrightarrow> u' = u)"
  by (cases u) (auto split: if_splits)

lemma size_singleton_nth:
  "length u = 1 \<Longrightarrow> size_list size u = size (u ! 0) + 1"
  by (cases u) auto

termination Binary
proof (relation "measure (\<lambda>c. case c of
      Inl (Inl (u, opName, v)) \<Rightarrow> 4 * (size u + size v) + 9
    | Inl (Inr (i, op, j)) \<Rightarrow> 4 * (size i + size j)
    | Inr (Inl (x, op, ys)) \<Rightarrow> 4 * (size x + 1 + size_list size ys) + 7
    | Inr (Inr (Inl (xs, op, y))) \<Rightarrow> 4 * (size_list size xs + size y + 1) + 7
    | Inr (Inr (Inr (xs, op, ys))) \<Rightarrow> 4 * (size_list size xs + size_list size ys) + 7)",
    goal_cases)
  case 1
  show ?case by simp
next
  case (2 u opName v op which u' v')
  from 2 have "size u' + size v' \<le> size u + size v + 2"
    using ToType_size [of u which u'] ToType_size [of v which v'] by auto
  then show ?case by simp
next
  case (3 i op j u v)
  then show ?case by (simp add: size_singleton_nth)
next
  case (4 i op j u v)
  then show ?case by (simp add: size_singleton_nth)
next
  case (5 i op j u v)
  then show ?case by simp
qed simp_all

declare Binary.simps [simp del] binaryVectorOp.simps [simp del]

section \<open>Values on references\<close>

subsection \<open>The power of a rational, on references\<close>

text \<open>
  A \<open>BigRat\<close> holds a pointer to a \<open>big.Rat\<close>, and \<open>Num\<close> and \<open>Denom\<close> of \<open>math/big\<close>
  return references to the numerator and the denominator of their receiver, not copies:
  what is assigned through the result is assigned to the receiver. (For a denominator
  equal to 1 \<open>Denom\<close> may return a copy; the entry then writes 1 where 1 is.) To see
  what the entry of \<open>pow\<close> at \<open>bigRatType\<close> does to its operands, the same entry is written
  once more over a store: a reference stands for a \<open>*big.Rat\<close>, and the store gives the
  numerator and the denominator that each reference holds. \<open>nextRef\<close> is the reference that
  the next allocation returns. An operand that is a \<open>BigRat\<close> already is passed to the
  entry as it is, so the references are those of the operands of \<open>**\<close>.
\<close>

type_synonym ref = nat

record RatStore =
  cell :: "ref \<Rightarrow> int \<times> int"
  nextRef :: ref

definition setNum :: "ref \<Rightarrow> int \<Rightarrow> RatStore \<Rightarrow> RatStore" where
  "setNum r n s = s\<lparr> cell := (cell s)(r := (n, snd (cell s r))) \<rparr>"

definition setDenom :: "ref \<Rightarrow> int \<Rightarrow> RatStore \<Rightarrow> RatStore" where
  "setDenom r d s = s\<lparr> cell := (cell s)(r := (fst (cell s r), d)) \<rparr>"

text \<open>\<open>big.NewRat(x, y)\<close>: a new reference, holding the fraction in lowest terms.\<close>

definition newRat :: "int \<Rightarrow> int \<Rightarrow> RatStore \<Rightarrow> ref \<times> RatStore" where
  "newRat x y s =
     (nextRef s, s\<lparr> cell := (cell s)(nextRef s := Rat.normalize (x, y)), nextRef := Suc (nextRef s) \<rparr>)"

text \<open>\<open>z.SetFrac(a, b)\<close> stores the fraction in lowest terms in \<open>z\<close>.\<close>

definition setFrac :: "ref \<Rightarrow> int \<Rightarrow> int \<Rightarrow> RatStore \<Rightarrow> RatStore" where
  "setFrac z a b s = s\<lparr> cell := (cell s)(z := Rat.normalize (a, b)) \<rparr>"

datatype PowResult = ReturnsOne | ReturnsRat ref

text \<open>
  The entry, statement by statement. \<open>exp\<close>, \<open>num\<close> and \<open>den\<close> are references into \<open>v\<close>
  and \<open>u\<close>, so each \<open>Exp\<close> reads its arguments from the store as it is then and writes
  its result into the numerator, then the denominator, of \<open>u\<close>.
\<close>

definition powBigRatRef :: "ref \<Rightarrow> ref \<Rightarrow> RatStore \<Rightarrow> Error + PowResult \<times> RatStore" where
  "powBigRatRef u v s =
     (if sgn (fst (cell s v)) = 0 then Inr (ReturnsOne, s)
      else if sgn (fst (cell s v)) = - 1 then Inl NegativeExponent
      else
        (let s1 = setNum u (bigIntPow (fst (cell s u)) (fst (cell s v))) s;
             s2 = setDenom u (bigIntPow (snd (cell s1 u)) (fst (cell s1 v))) s1;
             (z, s3) = newRat 0 1 s2;
             s4 = setFrac z (fst (cell s3 u)) (snd (cell s3 u)) s3
         in Inr (ReturnsRat z, s4)))"

text \<open>
  Values as the program holds them. The pointer of a \<open>BigRat\<close> is a reference into the
  store; the other kinds are as before (no table entry writes to the \<open>big.Int\<close> of an
  operand, and every vector is a new slice). A variable, a node of an expression tree and
  an element of a vector hold such values, so two of them may hold the same reference.
\<close>

datatype RefValue = IntR "64 word" | BigIntR int | BigRatR ref | VectorR "RefValue list"

definition ValueSliceRef :: "RefValue list \<Rightarrow> RefValue" where
  "ValueSliceRef elem = VectorR elem"

text \<open>
  A value that has just been made (read from a literal) consists of new objects that
  nothing else holds: \<open>allocValue\<close> puts it into the store, each \<open>big.Rat\<close> of it at a new
  reference.
\<close>

fun allocValue :: "Value \<Rightarrow> RatStore \<Rightarrow> RefValue \<times> RatStore"
  and allocValues :: "Value list \<Rightarrow> RatStore \<Rightarrow> RefValue list \<times> RatStore"
where
  "allocValue (IntV x) s = (IntR x, s)"
| "allocValue (BigInt i) s = (BigIntR i, s)"
| "allocValue (BigRat r) s =
     (let (z, s1) = newRat (fst (quotient_of r)) (snd (quotient_of r)) s in (BigRatR z, s1))"
| "allocValue (Vector xs) s = (let (ys, s1) = allocValues xs s in (VectorR ys, s1))"
| "allocValues [] s = ([], s)"
| "allocValues (x # xs) s =
     (let (y, s1) = allocValue x s; (ys, s2) = allocValues xs s1 in (y # ys, s2))"

subsection \<open>Vector broadcasting, on references\<close>

text \<open>
  \<open>binaryVectorOp\<close> once more, on values as the program holds them. \<open>value.Binary\<close>, which
  the sources at hand do not contain, is the parameter \<open>B\<close>: any function that, given
  the two operands, the operator and the store, returns a value or panics, and leaves a
  store. The three iterations call it on the elements in ascending order, each call on the
  store that the call before has left, and every call with \<open>u.x[0]\<close> (or \<open>v.x[0]\<close>) is
  given the same value, hence the same reference. A panic ends the iteration.
\<close>

type_synonym binaryRef =
  "RefValue \<Rightarrow> string \<Rightarrow> RefValue \<Rightarrow> RatStore \<Rightarrow> (Error + RefValue) \<times> RatStore"

fun broadcastLeftRef ::
  "binaryRef \<Rightarrow> RefValue \<Rightarrow> string \<Rightarrow> RefValue list \<Rightarrow> RatStore \<Rightarrow> (Error + RefValue list) \<times> RatStore"
where
  "broadcastLeftRef B x op [] s = (Inr [], s)"
| "broadcastLeftRef B x op (y # ys) s =
     (case B x op y s of
        (Inl e, s1) \<Rightarrow> (Inl e, s1)
      | (Inr r, s1) \<Rightarrow>
          (case broadcastLeftRef B x op ys s1 of
             (Inl e, s2) \<Rightarrow> (Inl e, s2)
           | (Inr rs, s2) \<Rightarrow> (Inr (r # rs), s2)))"

fun broadcastRightRef ::
  "binaryRef \<Rightarrow> RefValue list \<Rightarrow> string \<Rightarrow> RefValue \<Rightarrow> RatStore \<Rightarrow> (Error + RefValue list) \<times> RatStore"
where
  "broadcastRightRef B [] op y s = (Inr [], s)"
| "broadcastRightRef B (x # xs) op y s =
     (case B x op y s of
        (Inl e, s1) \<Rightarrow> (Inl e, s1)
      | (Inr r, s1) \<Rightarrow>
          (case broadcastRightRef B xs op y s1 of
             (Inl e, s2) \<Rightarrow> (Inl e, s2)
           | (Inr rs, s2) \<Rightarrow> (Inr (r # rs), s2)))"

fun elementwiseRef ::
  "binaryRef \<Rightarrow> RefValue list \<Rightarrow> string \<Rightarrow> RefValue list \<Rightarrow> RatStore \<Rightarrow> (Error + RefValue list) \<times> RatStore"
where
  "elementwiseRef B [] op ys s = (Inr [], s)"
| "elementwiseRef B (x # xs) op [] s = (Inl (Panic ''index out of range''), s)"
| "elementwiseRef B (x # xs) op (y # ys) s =
     (case B x op y s of
        (Inl e, s1) \<Rightarrow> (Inl e, s1)
      | (Inr r, s1) \<Rightarrow>
          (case elementwiseRef B xs op ys s1 of
             (Inl e, s2) \<Rightarrow> (Inl e, s2)
           | (Inr rs, s2) \<Rightarrow> (Inr (r # rs), s2)))"

definition binaryVectorOpRef :: "binaryRef \<Rightarrow> binaryRef" where
  "binaryVectorOpRef B i op j s =
     (case i of
        VectorR u \<Rightarrow>
          (case j of
             VectorR v \<Rightarrow>
               if length u = 1 then
                 (case broadcastLeftRef B (u ! 0) op v s of
                    (Inl e, s1) \<Rightarrow> (Inl e, s1)
                  | (Inr n, s1) \<Rightarrow> (Inr (ValueSliceRef n), s1))
               else if length v = 1 then
                 (case broadcastRightRef B u op (v ! 0) s of
                    (Inl e, s1) \<Rightarrow> (Inl e, s1)
                  | (Inr n, s1) \<Rightarrow> (Inr (ValueSliceRef n), s1))
               else
                 (case sameLength u v of
                    Inl e \<Rightarrow> (Inl e, s)
                  | Inr _ \<Rightarrow>
                      (case elementwiseRef B u op v s of
                         (Inl e, s1) \<Rightarrow> (Inl e, s1)
                       | (Inr n, s1) \<Rightarrow> (Inr (ValueSliceRef n), s1)))
           | _ \<Rightarrow> (Inl TypeAssertion, s))
      | _ \<Rightarrow> (Inl TypeAssertion, s))"

section \<open>The parser\<close>

text \<open>
  Modelled from the spec: the token source \<open>lex.TokenReader\<close> is external, with
  \<open>next() \<rightarrow> Token\<close> and \<open>fileName() \<rightarrow> string\<close>. It is modelled as its file name and the
  list of tokens it has yet to deliver; once the list is exhausted it delivers the EOF
  token for ever.
\<close>

record Lexer =
  FileName :: string
  tokens :: "Token list"

definition eofToken :: Token where
  "eofToken = \<lparr> Type = EOF, Text = [] \<rparr>"

definition lexNext :: "Lexer \<Rightarrow> Token \<times> Lexer" where
  "lexNext l = (case tokens l of [] \<Rightarrow> (eofToken, l) | t # ts \<Rightarrow> (t, l\<lparr> tokens := ts \<rparr>))"

text \<open>
  \<open>value.Expr\<close>: a value (whose \<open>Eval\<close> is itself), a \<open>Unary\<close> node or a \<open>Binary\<close> node.
  The nodes are written \<open>UnaryNode op right\<close> and \<open>BinaryNode op left right\<close>, with the
  fields in the order of the structs; \<open>ExprTree\<close> is the type, \<open>Expr\<close> being the
  parser's function.
\<close>

datatype ExprTree = Val RefValue | UnaryNode string ExprTree | BinaryNode string ExprTree ExprTree

text \<open>
  The parser's state. The field \<open>config\<close> is left out: it is read only to decide whether
  the tree of a parsed expression is printed on the console, which is no part of this state.
\<close>

record Parser =
  lexer :: Lexer
  lineNum :: nat
  errorCount :: nat
  peekTok :: Token
  vars :: "string \<rightharpoonup> RefValue"
  curTok :: Token

text \<open>
  Functions of the repository that the sources at hand call but do not contain are taken
  as parameters, so that what is proved holds for every such function: the three readers
  of literals that \<open>ValueString\<close> tries in turn; \<open>value.Unary\<close> and \<open>value.Binary\<close> as
  the evaluation of a tree calls them, on values as the program holds them, each taking
  the store and returning a value or a panic with the store it leaves; and the parser's
  \<open>special\<close>.
\<close>

record Externals =
  SetIntString :: "string \<Rightarrow> Error + 64 word"
  SetBigIntString :: "string \<Rightarrow> Error + int"
  SetBigRatString :: "string \<Rightarrow> Error + rat"
  valueUnary :: "string \<Rightarrow> RefValue \<Rightarrow> RatStore \<Rightarrow> (Error + RefValue) \<times> RatStore"
  valueBinary :: binaryRef
  special :: "Parser \<Rightarrow> RatStore \<Rightarrow> (Error + unit) \<times> Parser \<times> RatStore"

text \<open>
  \<open>NewParser\<close> sets the lexer, the line number and an empty environment; the other fields
  have their zero values, which for a token is the one of kind \<open>EOF\<close> with no text.
\<close>

definition NewParser :: "Lexer \<Rightarrow> Parser" where
  "NewParser lx =
     \<lparr> lexer = lx, lineNum = 1, errorCount = 0, peekTok = eofToken, vars = Map.empty,
       curTok = eofToken \<rparr>"

definition Next :: "Parser \<Rightarrow> Token \<times> Parser" where
  "Next p =
     (let tok = peekTok p in
      if Type tok \<noteq> EOF then (tok, p\<lparr> peekTok := eofToken \<rparr>)
      else (let (tok, l) = lexNext (lexer p) in (tok, p\<lparr> lexer := l, curTok := tok \<rparr>)))"

definition Back :: "Token \<Rightarrow> Parser \<Rightarrow> Parser" where
  "Back tok p = p\<lparr> peekTok := tok \<rparr>"

definition Peek :: "Parser \<Rightarrow> Token \<times> Parser" where
  "Peek p =
     (let tok = peekTok p in
      if Type tok \<noteq> EOF then (tok, p)
      else (let (t, l) = lexNext (lexer p) in (t, p\<lparr> lexer := l, peekTok := t \<rparr>)))"

text \<open>
  The number of tokens still to come: those the lexer has yet to deliver, and the one in
  the pushback slot. The recursion of the parser terminates because this number falls.
\<close>

definition remaining :: "Parser \<Rightarrow> nat" where
  "remaining p = length (tokens (lexer p)) + (if Type (peekTok p) = EOF then 0 else 1)"

text \<open>\<open>Next\<close> and \<open>Peek\<close> never add to the tokens to come, and \<open>Next\<close> takes one if there is one.\<close>

lemma remaining_Next:
  "Next p = (tok, p') \<Longrightarrow> remaining p' + (if Type tok = EOF then 0 else 1) \<le> remaining p"
  by (auto simp: Next_def remaining_def lexNext_def eofToken_def Let_def split: if_splits list.splits)

lemma remaining_Next_strict:
  "Next p = (tok, p') \<Longrightarrow> 0 < remaining p \<Longrightarrow> remaining p' < remaining p"
  by (auto simp: Next_def remaining_def lexNext_def eofToken_def Let_def split: if_splits list.splits)

lemma remaining_Peek:
  "Peek p = (tok, p') \<Longrightarrow> remaining p' \<le> remaining p \<and> (Type tok \<noteq> EOF \<longrightarrow> 0 < remaining p')"
  by (auto simp: Peek_def remaining_def lexNext_def eofToken_def Let_def split: if_splits list.splits)

text \<open>
  \<open>errorf\<close> first flushes to the end of the line (the loop is \<open>flush\<close>), clears the
  pushback slot, and panics with the file and the line on the head of the message; \<open>raise\<close>
  makes the panic the result of the function that called \<open>errorf\<close>. The state the panic
  leaves behind is kept, since the session goes on with it.
\<close>

function flush :: "Parser \<Rightarrow> Parser" where
  "flush p =
     (if Type (curTok p) \<noteq> Newline \<and> Type (curTok p) \<noteq> EOF then flush (snd (Next p)) else p)"
  by pat_completeness auto
termination
proof (relation "measure (\<lambda>p. 2 * remaining p
          + (if Type (curTok p) \<noteq> Newline \<and> Type (curTok p) \<noteq> EOF then 1 else 0))", goal_cases)
  case 1
  show ?case by simp
next
  case (2 p)
  then show ?case
    by (auto simp: Next_def remaining_def lexNext_def eofToken_def Let_def split: if_splits list.splits)
qed

declare flush.simps [simp del]

definition errorf :: "Error \<Rightarrow> Parser \<Rightarrow> Error \<times> Parser" where
  "errorf msg p =
     (let p1 = (flush p)\<lparr> peekTok := eofToken \<rparr>
      in (At (FileName (lexer p1)) (lineNum p1) msg, p1))"

definition raise :: "Error \<times> Parser \<Rightarrow> (Error + 'a) \<times> Parser" where
  "raise ep = (Inl (fst ep), snd ep)"

text \<open>
  \<open>strings.Split(s, "/")\<close>, for a separator of one character. \<open>ValueString\<close> returns an
  error (the inner \<open>Inl\<close>) or panics (the outer \<open>Inl\<close>); the caller treats the two differently.
\<close>

fun split :: "string \<Rightarrow> char \<Rightarrow> string list" where
  "split [] sep = [[]]"
| "split (c # cs) sep =
     (if c = sep then [] # split cs sep
      else (case split cs sep of [] \<Rightarrow> [[c]] | e # es \<Rightarrow> (c # e) # es))"

lemma split_no_sep: "e \<in> set (split s sep) \<Longrightarrow> sep \<notin> set e"
  by (induction s arbitrary: e) (auto split: if_splits list.splits)

function ValueString :: "('a Externals_scheme) \<Rightarrow> string \<Rightarrow> Error + (Error + Value)" where
  "ValueString X s =
     (if CHR ''/'' \<in> set s then
        (let elems = split s CHR ''/'' in
         if length elems \<noteq> 2 then Inl (Panic ''bad rat'')
         else
           (case ValueString X (elems ! 0) of
              Inl e \<Rightarrow> Inl e
            | Inr (Inl err) \<Rightarrow> Inr (Inl err)
            | Inr (Inr num) \<Rightarrow>
                (case ValueString X (elems ! 1) of
                   Inl e \<Rightarrow> Inl e
                 | Inr (Inl err) \<Rightarrow> Inr (Inl err)
                 | Inr (Inr den) \<Rightarrow>
                     if whichType num = intType \<and> whichType den = intType then
                       (case (num, den) of
                          (IntV n, IntV d) \<Rightarrow>
                            (case bigRatTwoInt64s n d of
                               Inl e \<Rightarrow> Inl e
                             | Inr r \<Rightarrow> Inr (Inr (shrink r)))
                        | _ \<Rightarrow> Inl TypeAssertion)
                     else
                       (case ToType den bigRatType of
                          Inl e \<Rightarrow> Inl e
                        | Inr rden \<Rightarrow>
                            (case rden of
                               BigRat d \<Rightarrow>
                                 if sgn d = 0 then Inl ZeroDenominator
                                 else
                                   (case ToType num bigRatType of
                                      Inl e \<Rightarrow> Inl e
                                    | Inr rnum \<Rightarrow>
                                        (case binaryBigRatOp rnum (/) rden of
                                           Inl e \<Rightarrow> Inl e
                                         | Inr r \<Rightarrow> Inr (Inr r)))
                             | _ \<Rightarrow> Inl TypeAssertion)))))
      else
        (case SetIntString X s of
           Inr i \<Rightarrow> Inr (Inr (IntV i))
         | Inl _ \<Rightarrow>
             (case SetBigIntString X s of
                Inr b \<Rightarrow> Inr (Inr (shrink (BigInt b)))
              | Inl _ \<Rightarrow>
                  (case SetBigRatString X s of
                     Inr r \<Rightarrow> Inr (Inr (shrink (BigRat r)))
                   | Inl err \<Rightarrow> Inr (Inl err)))))"
  by pat_completeness auto
termination
proof (relation "measure (\<lambda>(X, s). if CHR ''/'' \<in> set s then 1 else 0)", goal_cases)
  case 1
  show ?case by simp
next
  case (2 X s elems)
  then show ?case using split_no_sep [OF nth_mem, of 0 s "CHR ''/''"] by simp
next
  case (3 X s elems)
  then show ?case using split_no_sep [OF nth_mem, of 1 s "CHR ''/''"] by simp
qed

declare ValueString.simps [simp del]

definition Number :: "('a Externals_scheme) \<Rightarrow> Token \<Rightarrow> Parser \<Rightarrow> (Error + Value) \<times> Parser" where
  "Number X tok p =
     (case ValueString X (Text tok) of
        Inl e \<Rightarrow> (Inl e, p)
      | Inr (Inl err) \<Rightarrow> raise (errorf (BadNumber (Text tok) err) p)
      | Inr (Inr x) \<Rightarrow> (Inr x, p))"

lemma Number_Inr: "Number X tok p = (Inr x, p') \<Longrightarrow> p' = p"
  by (auto simp: Number_def raise_def split: sum.splits)

text \<open>
  \<open>NumberOrVector\<close>: the loop \<open>for typ == scan.Number || typ == scan.Rational\<close> is
  \<open>vectorLoop\<close>, with the slice \<open>v\<close> built so far and \<open>typ\<close> as its arguments.
\<close>

function vectorLoop :: "('a Externals_scheme) \<Rightarrow> Value list \<Rightarrow> TokType \<Rightarrow> Parser \<Rightarrow> (Error + Value list) \<times> Parser" where
  "vectorLoop X v typ p =
     (if typ = NumberTok \<or> typ = Rational then
        (let (tok, p1) = Next p in
         case Number X tok p1 of
           (Inl e, p2) \<Rightarrow> (Inl e, p2)
         | (Inr x, p2) \<Rightarrow> (let (t, p3) = Peek p2 in vectorLoop X (v @ [x]) (Type t) p3))
      else (Inr v, p))"
  by pat_completeness auto
termination
proof (relation "measure (\<lambda>(X, v, typ, p). 2 * remaining p
          + (if typ = NumberTok \<or> typ = Rational then 1 else 0))", goal_cases)
  case 1
  show ?case by simp
next
  case (2 X v ty p nx tok p1 r p2 x pk t p3)
  then have a: "Next p = (tok, p1)" and b: "Number X tok p1 = (Inr x, p2)" and c: "Peek p2 = (t, p3)"
    by simp_all
  show ?case
    using 2(1) remaining_Next [OF a] remaining_Next_strict [OF a] remaining_Peek [OF c]
      Number_Inr [OF b]
    by (auto split: if_splits)
qed

declare vectorLoop.simps [simp del]

definition NumberOrVector :: "('a Externals_scheme) \<Rightarrow> Token \<Rightarrow> Parser \<Rightarrow> (Error + Value) \<times> Parser" where
  "NumberOrVector X tok p =
     (case Number X tok p of
        (Inl e, p1) \<Rightarrow> (Inl e, p1)
      | (Inr x, p1) \<Rightarrow>
          (let (t, p2) = Peek p1 in
           if Type t \<noteq> NumberTok \<and> Type t \<noteq> Rational then (Inr x, p2)
           else
             (case vectorLoop X [x] (Type t) p2 of
                (Inl e, p3) \<Rightarrow> (Inl e, p3)
              | (Inr v, p3) \<Rightarrow> (Inr (ValueSlice v), p3))))"

text \<open>
  The recursive descent. Each function takes the parser's state and the store and returns
  the tree, or the panic, with the state and the store it leaves. The tree holds values as
  the program holds them: a number or vector just read is put into the store, and an
  identifier gives the very value the environment holds, not a copy. The loop of \<open>index\<close>
  is its recursion.
\<close>

definition raiseOn :: "Error \<times> Parser \<Rightarrow> RatStore \<Rightarrow> (Error + 'a) \<times> Parser \<times> RatStore" where
  "raiseOn ep h = (Inl (fst ep), snd ep, h)"

function Expr ::
    "('a Externals_scheme) \<Rightarrow> Token \<Rightarrow> Parser \<Rightarrow> RatStore \<Rightarrow> (Error + ExprTree) \<times> Parser \<times> RatStore"
  and Operand ::
    "('a Externals_scheme) \<Rightarrow> Token \<Rightarrow> Parser \<Rightarrow> RatStore \<Rightarrow> (Error + ExprTree) \<times> Parser \<times> RatStore"
  and index ::
    "('a Externals_scheme) \<Rightarrow> ExprTree \<Rightarrow> Parser \<Rightarrow> RatStore \<Rightarrow> (Error + ExprTree) \<times> Parser \<times> RatStore"
where
  "Expr X tok p h =
     (case Operand X tok p h of
        (Inl e, p1, h1) \<Rightarrow> (Inl e, p1, h1)
      | (Inr expr, p1, h1) \<Rightarrow>
          (let (t, p2) = Peek p1 in
           if Type t = Newline \<or> Type t = EOF \<or> Type t = RightParen \<or> Type t = RightBrack
           then (Inr expr, p2, h1)
           else if Type t = Operator then
             (let (tok1, p3) = Next p2; (tok2, p4) = Next p3 in
              case Expr X tok2 p4 h1 of
                (Inl e, p5, h2) \<Rightarrow> (Inl e, p5, h2)
              | (Inr right, p5, h2) \<Rightarrow> (Inr (BinaryNode (Text tok1) expr right), p5, h2))
           else (let (t', p3) = Peek p2 in raiseOn (errorf (UnexpectedAfterExpression t') p3) h1)))"
| "Operand X tok p h =
     (if Type tok = Operator then
        (let (tok1, p1) = Next p in
         case Expr X tok1 p1 h of
           (Inl e, p2, h1) \<Rightarrow> (Inl e, p2, h1)
         | (Inr right, p2, h1) \<Rightarrow> (Inr (UnaryNode (Text tok) right), p2, h1))
      else if Type tok = LeftParen then
        (let (tok1, p1) = Next p in
         case Expr X tok1 p1 h of
           (Inl e, p2, h1) \<Rightarrow> (Inl e, p2, h1)
         | (Inr expr, p2, h1) \<Rightarrow>
             (let (tok2, p3) = Next p2 in
              if Type tok2 \<noteq> RightParen then raiseOn (errorf (ExpectedRightParen tok2) p3) h1
              else index X expr p3 h1))
      else if Type tok = NumberTok \<or> Type tok = Rational then
        (case NumberOrVector X tok p of
           (Inl e, p1) \<Rightarrow> (Inl e, p1, h)
         | (Inr x, p1) \<Rightarrow> (let (r, h1) = allocValue x h in (Inr (Val r), p1, h1)))
      else if Type tok = Identifier then
        (case vars p (Text tok) of
           None \<Rightarrow> raiseOn (errorf (Undefined (Text tok)) p) h
         | Some x \<Rightarrow> index X (Val x) p h)
      else raiseOn (errorf (Unexpected tok) p) h)"
| "index X expr p h =
     (let (t, p1) = Peek p in
      if Type t = LeftBrack then
        (let (tok1, p2) = Next p1; (tok2, p3) = Next p2 in
         case Expr X tok2 p3 h of
           (Inl e, p4, h1) \<Rightarrow> (Inl e, p4, h1)
         | (Inr idx, p4, h1) \<Rightarrow>
             (let (tok3, p5) = Next p4 in
              if Type tok3 \<noteq> RightBrack then raiseOn (errorf (ExpectedRightBrack tok3) p5) h1
              else index X (BinaryNode ''[]'' expr idx) p5 h1))
      else (Inr expr, p1, h))"
  by pat_completeness auto

text \<open>
  Termination of the recursive descent. No function of the parser leaves more tokens to
  come than it was given: first the functions defined so far, then \<open>Expr\<close>, \<open>Operand\<close> and
  \<open>index\<close> wherever they return. With that, every recursive call is on fewer tokens,
  counting the token in hand.
\<close>

lemma remaining_Next_le: "remaining (snd (Next p)) \<le> remaining p"
  using remaining_Next [of p "fst (Next p)" "snd (Next p)"] by auto

lemma remaining_Peek_le: "remaining (snd (Peek p)) \<le> remaining p"
  using remaining_Peek [of p "fst (Peek p)" "snd (Peek p)"] by auto

lemma remaining_flush: "remaining (flush p) \<le> remaining p"
proof (induction p rule: flush.induct)
  case (1 p)
  show ?case
  proof (cases "Type (curTok p) \<noteq> Newline \<and> Type (curTok p) \<noteq> EOF")
    case True
    then have "flush p = flush (snd (Next p))" by (subst flush.simps) simp
    moreover have "remaining (flush (snd (Next p))) \<le> remaining (snd (Next p))"
      using 1 True by blast
    ultimately show ?thesis using remaining_Next_le [of p] by simp
  next
    case False
    then have "flush p = p" using flush.simps [of p] by auto
    then show ?thesis by simp
  qed
qed

lemma remaining_errorf: "remaining (snd (errorf msg p)) \<le> remaining p"
proof -
  have "remaining ((flush p)\<lparr> peekTok := eofToken \<rparr>) \<le> remaining (flush p)"
    by (simp add: remaining_def eofToken_def)
  then show ?thesis
    using remaining_flush [of p] by (simp add: errorf_def Let_def)
qed

lemma snd_raise [simp]: "snd (raise ep) = snd ep"
  by (simp add: raise_def)

lemma remaining_Number: "remaining (snd (Number X tok p)) \<le> remaining p"
proof (cases "ValueString X (Text tok)")
  case (Inl e)
  then show ?thesis by (simp add: Number_def)
next
  case (Inr r)
  show ?thesis
  proof (cases r)
    case (Inl err)
    then show ?thesis
      using Inr remaining_errorf [of "BadNumber (Text tok) err" p]
      by (simp add: Number_def)
  next
    case (Inr x)
    then show ?thesis using \<open>ValueString X (Text tok) = Inr r\<close> by (simp add: Number_def)
  qed
qed

lemma remaining_vectorLoop: "remaining (snd (vectorLoop X v ty p)) \<le> remaining p"
proof (induction X v ty p rule: vectorLoop.induct)
  case (1 X v ty p)
  show ?case
  proof (cases "ty = NumberTok \<or> ty = Rational")
    case False
    then show ?thesis by (subst vectorLoop.simps) simp
  next
    case True
    obtain tok p1 where n: "Next p = (tok, p1)" by (cases "Next p")
    obtain r p2 where m: "Number X tok p1 = (r, p2)" by (cases "Number X tok p1")
    have le2: "remaining p2 \<le> remaining p"
      using remaining_Next_le [of p] remaining_Number [of X tok p1] n m by simp
    show ?thesis
    proof (cases r)
      case (Inl e)
      then show ?thesis using True n m le2 by (subst vectorLoop.simps) simp
    next
      case (Inr x)
      obtain t p3 where k: "Peek p2 = (t, p3)" by (cases "Peek p2")
      have "remaining (snd (vectorLoop X (v @ [x]) (Type t) p3)) \<le> remaining p3"
        using 1 [OF True n [symmetric] refl m [symmetric] Inr k [symmetric] refl] .
      moreover have "remaining p3 \<le> remaining p2"
        using remaining_Peek_le [of p2] k by simp
      ultimately show ?thesis
        using True n m Inr k le2 by (subst vectorLoop.simps) simp
    qed
  qed
qed

lemma remaining_NumberOrVector: "remaining (snd (NumberOrVector X tok p)) \<le> remaining p"
proof -
  obtain r p1 where m: "Number X tok p = (r, p1)" by (cases "Number X tok p")
  have le1: "remaining p1 \<le> remaining p" using remaining_Number [of X tok p] m by simp
  show ?thesis
  proof (cases r)
    case (Inl e)
    then show ?thesis using m le1 by (simp add: NumberOrVector_def)
  next
    case (Inr x)
    obtain t p2 where k: "Peek p1 = (t, p2)" by (cases "Peek p1")
    have le2: "remaining p2 \<le> remaining p1" using remaining_Peek_le [of p1] k by simp
    show ?thesis
      using m Inr k le1 le2 remaining_vectorLoop [of X "[x]" "Type t" p2]
      by (auto simp: NumberOrVector_def split: prod.splits sum.splits)
  qed
qed

lemma fst_snd_raiseOn [simp]: "fst (snd (raiseOn ep h)) = snd ep"
  by (simp add: raiseOn_def)

lemma remaining_parse_dom:
  "Expr_Operand_index_dom (Inl (X, tok, p, h)) \<Longrightarrow>
     remaining (fst (snd (Expr X tok p h))) \<le> remaining p"
  "Expr_Operand_index_dom (Inr (Inl (X, tok', p', h'))) \<Longrightarrow>
     remaining (fst (snd (Operand X tok' p' h'))) \<le> remaining p'"
  "Expr_Operand_index_dom (Inr (Inr (X, e, p'', h''))) \<Longrightarrow>
     remaining (fst (snd (index X e p'' h''))) \<le> remaining p''"
proof (induction X tok p h and X tok' p' h' and X e p'' h'' rule: Expr_Operand_index.pinduct)
  case (1 X tok p h)
  note dom = 1(1) and operand = 1(2) and IH = 1(3)
  obtain r p1 h1 where o: "Operand X tok p h = (r, p1, h1)" by (cases "Operand X tok p h")
  have le1: "remaining p1 \<le> remaining p" using operand o by simp
  show ?case
  proof (cases r)
    case (Inl e)
    then show ?thesis using o le1 by (simp add: Expr.psimps [OF dom])
  next
    case (Inr expr)
    obtain t p2 where k: "Peek p1 = (t, p2)" by (cases "Peek p1")
    have le2: "remaining p2 \<le> remaining p1" using remaining_Peek [OF k] by simp
    consider (stop) "Type t = Newline \<or> Type t = EOF \<or> Type t = RightParen \<or> Type t = RightBrack"
      | (binary) "\<not> (Type t = Newline \<or> Type t = EOF \<or> Type t = RightParen \<or> Type t = RightBrack)"
          "Type t = Operator"
      | (other) "\<not> (Type t = Newline \<or> Type t = EOF \<or> Type t = RightParen \<or> Type t = RightBrack)"
          "Type t \<noteq> Operator"
      by blast
    then show ?thesis
    proof cases
      case stop
      then show ?thesis using o Inr k le1 le2 by (simp add: Expr.psimps [OF dom])
    next
      case binary
      obtain tok1 p3 where n1: "Next p2 = (tok1, p3)" by (cases "Next p2")
      obtain tok2 p4 where n2: "Next p3 = (tok2, p4)" by (cases "Next p3")
      obtain r5 p5 h5 where x: "Expr X tok2 p4 h1 = (r5, p5, h5)" by (cases "Expr X tok2 p4 h1")
      have "remaining p5 \<le> remaining p4"
        using IH [OF o [symmetric] Inr refl refl k [symmetric] binary refl n1 [symmetric] refl
            n2 [symmetric]] x by simp
      moreover have "remaining p4 \<le> remaining p3" using remaining_Next [OF n2] by simp
      moreover have "remaining p3 \<le> remaining p2" using remaining_Next [OF n1] by simp
      ultimately have "remaining p5 \<le> remaining p" using le1 le2 by simp
      then show ?thesis
        using o Inr k binary n1 n2 x by (simp add: Expr.psimps [OF dom] split: sum.splits)
    next
      case other
      obtain t' p3 where k2: "Peek p2 = (t', p3)" by (cases "Peek p2")
      have "remaining p3 \<le> remaining p2" using remaining_Peek [OF k2] by simp
      then show ?thesis
        using o Inr k other k2 le1 le2 remaining_errorf [of "UnexpectedAfterExpression t'" p3]
        by (simp add: Expr.psimps [OF dom])
    qed
  qed
next
  case (2 X tok p h)
  note dom = 2(1) and IHu = 2(2) and IHp = 2(3) and IHi = 2(4) and IHv = 2(5)
  consider (unary) "Type tok = Operator"
    | (paren) "Type tok \<noteq> Operator" "Type tok = LeftParen"
    | (number) "Type tok \<noteq> Operator" "Type tok \<noteq> LeftParen"
        "Type tok = NumberTok \<or> Type tok = Rational"
    | (ident) "Type tok \<noteq> Operator" "Type tok \<noteq> LeftParen"
        "\<not> (Type tok = NumberTok \<or> Type tok = Rational)" "Type tok = Identifier"
    | (other) "Type tok \<noteq> Operator" "Type tok \<noteq> LeftParen"
        "\<not> (Type tok = NumberTok \<or> Type tok = Rational)" "Type tok \<noteq> Identifier"
    by blast
  then show ?case
  proof cases
    case unary
    obtain tok1 p1 where n: "Next p = (tok1, p1)" by (cases "Next p")
    obtain r2 p2 h2 where x: "Expr X tok1 p1 h = (r2, p2, h2)" by (cases "Expr X tok1 p1 h")
    have "remaining p2 \<le> remaining p1"
      using IHu [OF unary refl n [symmetric]] x by simp
    moreover have "remaining p1 \<le> remaining p" using remaining_Next [OF n] by simp
    ultimately show ?thesis
      using unary n x by (simp add: Operand.psimps [OF dom] split: sum.splits)
  next
    case paren
    obtain tok1 p1 where n: "Next p = (tok1, p1)" by (cases "Next p")
    obtain r2 p2 h2 where x: "Expr X tok1 p1 h = (r2, p2, h2)" by (cases "Expr X tok1 p1 h")
    have le2: "remaining p2 \<le> remaining p1"
      using IHp [OF paren refl n [symmetric]] x by simp
    have le1: "remaining p1 \<le> remaining p" using remaining_Next [OF n] by simp
    show ?thesis
    proof (cases r2)
      case (Inl e)
      then show ?thesis using paren n x le1 le2 by (simp add: Operand.psimps [OF dom])
    next
      case (Inr expr)
      obtain tok2 p3 where n2: "Next p2 = (tok2, p3)" by (cases "Next p2")
      have le3: "remaining p3 \<le> remaining p2" using remaining_Next [OF n2] by simp
      show ?thesis
      proof (cases "Type tok2 \<noteq> RightParen")
        case True
        then show ?thesis
          using paren n x Inr n2 le1 le2 le3 remaining_errorf [of "ExpectedRightParen tok2" p3]
          by (simp add: Operand.psimps [OF dom])
      next
        case False
        have "remaining (fst (snd (index X expr p3 h2))) \<le> remaining p3"
          using IHi [OF paren refl n [symmetric] x [symmetric] Inr refl refl n2 [symmetric] False] .
        then show ?thesis
          using paren n x Inr n2 False le1 le2 le3 by (simp add: Operand.psimps [OF dom])
      qed
    qed
  next
    case number
    then show ?thesis
      using remaining_NumberOrVector [of X tok p]
      by (auto simp add: Operand.psimps [OF dom] split: prod.splits sum.splits)
  next
    case ident
    show ?thesis
    proof (cases "vars p (Text tok)")
      case None
      then show ?thesis
        using ident remaining_errorf [of "Undefined (Text tok)" p]
        by (simp add: Operand.psimps [OF dom])
    next
      case (Some x)
      then show ?thesis
        using ident IHv [OF ident Some] by (simp add: Operand.psimps [OF dom])
    qed
  next
    case other
    then show ?thesis
      using remaining_errorf [of "Unexpected tok" p] by (simp add: Operand.psimps [OF dom])
  qed
next
  case (3 X expr p h)
  note dom = 3(1) and IHe = 3(2) and IHi = 3(3)
  obtain t p1 where k: "Peek p = (t, p1)" by (cases "Peek p")
  have le1: "remaining p1 \<le> remaining p" using remaining_Peek [OF k] by simp
  show ?case
  proof (cases "Type t = LeftBrack")
    case False
    then show ?thesis using k le1 by (simp add: index.psimps [OF dom])
  next
    case True
    obtain tok1 p2 where n1: "Next p1 = (tok1, p2)" by (cases "Next p1")
    obtain tok2 p3 where n2: "Next p2 = (tok2, p3)" by (cases "Next p2")
    obtain r4 p4 h4 where x: "Expr X tok2 p3 h = (r4, p4, h4)" by (cases "Expr X tok2 p3 h")
    have le4: "remaining p4 \<le> remaining p3"
      using IHe [OF refl k [symmetric] True refl n1 [symmetric] refl n2 [symmetric]] x by simp
    have le3: "remaining p3 \<le> remaining p2" using remaining_Next [OF n2] by simp
    have le2: "remaining p2 \<le> remaining p1" using remaining_Next [OF n1] by simp
    show ?thesis
    proof (cases r4)
      case (Inl e)
      then show ?thesis
        using k True n1 n2 x le1 le2 le3 le4 by (simp add: index.psimps [OF dom])
    next
      case (Inr idx)
      obtain tok3 p5 where n3: "Next p4 = (tok3, p5)" by (cases "Next p4")
      have le5: "remaining p5 \<le> remaining p4" using remaining_Next [OF n3] by simp
      show ?thesis
      proof (cases "Type tok3 \<noteq> RightBrack")
        case True
        then show ?thesis
          using k \<open>Type t = LeftBrack\<close> n1 n2 x Inr n3 le1 le2 le3 le4 le5
            remaining_errorf [of "ExpectedRightBrack tok3" p5]
          by (simp add: index.psimps [OF dom])
      next
        case False
        have "remaining (fst (snd (index X (BinaryNode ''[]'' expr idx) p5 h4))) \<le> remaining p5"
          using IHi [OF refl k [symmetric] True refl n1 [symmetric] refl n2 [symmetric]
              x [symmetric] Inr refl refl n3 [symmetric] False] .
        then show ?thesis
          using k True n1 n2 x Inr n3 False le1 le2 le3 le4 le5
          by (simp add: index.psimps [OF dom])
      qed
    qed
  qed
qed

termination Expr
proof (relation "measure (\<lambda>c. case c of
      Inl (X, tok, p, h) \<Rightarrow> 3 * (remaining p + (if Type tok = EOF then 0 else 1)) + 2
    | Inr (Inl (X, tok, p, h)) \<Rightarrow> 3 * (remaining p + (if Type tok = EOF then 0 else 1)) + 1
    | Inr (Inr (X, expr, p, h)) \<Rightarrow> 3 * remaining p)", goal_cases)
  case 1
  show ?case by simp
next
  case 2
  show ?case by simp
next
  case (3 X tok p h r ph expr p1 h1 pk t p2 n1 tok1 p3 n2 tok2 p4)
  then have o: "Operand X tok p h = (r, p1, h1)" and k: "Peek p1 = (t, p2)"
    and n1: "Next p2 = (tok1, p3)" and n2: "Next p3 = (tok2, p4)" and t: "Type t = Operator"
    by simp_all
  have "remaining p1 \<le> remaining p"
    using remaining_parse_dom(2) [OF 3(12)] o by simp
  then show ?case
    using remaining_Peek [OF k] t remaining_Next_strict [OF n1] remaining_Next [OF n2]
    by (auto split: if_splits)
next
  case (4 X tok p h n tok1 p1)
  then have n: "Next p = (tok1, p1)" by simp
  show ?case using 4(1) remaining_Next [OF n] by (auto split: if_splits)
next
  case (5 X tok p h n tok1 p1)
  then have n: "Next p = (tok1, p1)" by simp
  show ?case using 5(2) remaining_Next [OF n] by (auto split: if_splits)
next
  case (6 X tok p h n tok1 p1 r2 ph expr p2 h2 n2 tok2 p3)
  then have n: "Next p = (tok1, p1)" and x: "Expr X tok1 p1 h = (r2, p2, h2)"
    and n2: "Next p2 = (tok2, p3)"
    by simp_all
  have "remaining p2 \<le> remaining p1"
    using remaining_parse_dom(1) [OF 6(11)] x by simp
  then show ?case
    using 6(2) remaining_Next [OF n] remaining_Next [OF n2] by (auto split: if_splits)
next
  case (7 X tok p h x)
  then show ?case by simp
next
  case (8 X expr p h pk t p1 n1 tok1 p2 n2 tok2 p3)
  then have k: "Peek p = (t, p1)" and n1: "Next p1 = (tok1, p2)" and n2: "Next p2 = (tok2, p3)"
    and t: "Type t = LeftBrack"
    by simp_all
  show ?case
    using remaining_Peek [OF k] t remaining_Next_strict [OF n1] remaining_Next [OF n2]
    by (auto split: if_splits)
next
  case (9 X expr p h pk t p1 n1 tok1 p2 n2 tok2 p3 r4 ph idx p4 h4 n3 tok3 p5)
  then have k: "Peek p = (t, p1)" and n1: "Next p1 = (tok1, p2)" and n2: "Next p2 = (tok2, p3)"
    and t: "Type t = LeftBrack" and x: "Expr X tok2 p3 h = (r4, p4, h4)"
    and n3: "Next p4 = (tok3, p5)" and b: "Type tok3 = RightBrack"
    by simp_all
  have "remaining p4 \<le> remaining p3"
    using remaining_parse_dom(1) [OF 9(14)] x by simp
  then show ?case
    using remaining_Peek [OF k] t remaining_Next_strict [OF n1] remaining_Next [OF n2]
      remaining_Next [OF n3] b
    by (auto split: if_splits)
qed

declare Expr.simps [simp del] Operand.simps [simp del] index.simps [simp del]

section \<open>Evaluation and lines\<close>

text \<open>
  \<open>Eval\<close>: a value evaluates to itself; a \<open>Unary\<close> node evaluates its operand and calls
  \<open>value.Unary\<close>; a \<open>Binary\<close> node evaluates the left operand, then the right, and calls
  \<open>value.Binary\<close>. Each step starts from the store that the step before has left, and
  the value of a leaf is the value that the tree holds, with its references.
\<close>

fun Eval :: "('a Externals_scheme) \<Rightarrow> ExprTree \<Rightarrow> RatStore \<Rightarrow> (Error + RefValue) \<times> RatStore" where
  "Eval X (Val v) h = (Inr v, h)"
| "Eval X (UnaryNode op right) h =
     (case Eval X right h of
        (Inl e, h1) \<Rightarrow> (Inl e, h1)
      | (Inr r, h1) \<Rightarrow> valueUnary X op r h1)"
| "Eval X (BinaryNode op left right) h =
     (case Eval X left h of
        (Inl e, h1) \<Rightarrow> (Inl e, h1)
      | (Inr l, h1) \<Rightarrow>
          (case Eval X right h1 of
             (Inl e, h2) \<Rightarrow> (Inl e, h2)
           | (Inr r, h2) \<Rightarrow> valueBinary X l op r h2))"

text \<open>
  \<open>Line\<close> returns the value to print, if any, and whether the session goes on. The
  \<open>Identifier\<close> case looks for \<open>:=\<close> and falls through to the default case; \<open>lineHead\<close> is
  that case: it gives \<open>isAssignment\<close>, \<open>variable\<close>, the token the expression starts with
  and the state. The branch \<open>x == nil\<close> of the source cannot be taken, since \<open>Expr\<close>
  returns a tree or panics, and is left out.
\<close>

definition lineHead :: "Token \<Rightarrow> Parser \<Rightarrow> bool \<times> string \<times> Token \<times> Parser" where
  "lineHead tok p =
     (if Type tok = Identifier then
        (let (next, p1) = Peek p in
         if Type next = Assign then
           (let (tok1, p2) = Next p1; (tok2, p3) = Next p2 in (True, Text tok, tok2, p3))
         else (False, [], tok, p1))
      else (False, [], tok, p))"

definition Line ::
  "('a Externals_scheme) \<Rightarrow> Parser \<Rightarrow> RatStore \<Rightarrow> (Error + RefValue option \<times> bool) \<times> Parser \<times> RatStore"
where
  "Line X p h =
     (let (tok, p1) = Next p in
      if Type tok = EOF then (Inr (None, False), p1, h)
      else if Type tok = ErrorTok then raiseOn (errorf (Quoted tok) p1) h
      else if Type tok = RightParen then
        (case special X p1 h of
           (Inl e, p2, h2) \<Rightarrow> (Inl e, p2, h2)
         | (Inr u, p2, h2) \<Rightarrow> (Inr (None, True), p2, h2))
      else if Type tok = Newline then (Inr (None, True), p1, h)
      else
        (let (isAssignment, variable, tok1, p2) = lineHead tok p1 in
         case Expr X tok1 p2 h of
           (Inl e, p3, h3) \<Rightarrow> (Inl e, p3, h3)
         | (Inr x, p3, h3) \<Rightarrow>
             (let (tok2, p4) = Next p3 in
              if Type tok2 \<noteq> Newline \<and> Type tok2 \<noteq> EOF
              then raiseOn (errorf (UnexpectedQuoted tok2) p4) h3
              else
                (case Eval X x h3 of
                   (Inl e, h4) \<Rightarrow> (Inl e, p4, h4)
                 | (Inr expr, h4) \<Rightarrow>
                     (let p5 = p4\<lparr> vars := (vars p4)(''_'' \<mapsto> expr) \<rparr>;
                          p6 = (if variable \<noteq> [] then p5\<lparr> vars := (vars p5)(variable \<mapsto> expr) \<rparr>
                                else p5)
                      in if isAssignment then (Inr (None, True), p6, h4)
                         else (Inr (Some expr, True), p6, h4))))))"

section \<open>Notions used to state the properties\<close>

text \<open>The number a scalar value stands for; a vector stands for none.\<close>

fun scalarValue :: "Value \<Rightarrow> rat option" where
  "scalarValue (IntV x) = Some (of_int (sint x))"
| "scalarValue (BigInt i) = Some (of_int i)"
| "scalarValue (BigRat r) = Some r"
| "scalarValue (Vector xs) = None"

text \<open>
  The tokens that successive calls of \<open>Next\<close> will return: the one in the pushback slot,
  if the slot is not empty, and then those of the lexer.
\<close>

definition upcoming :: "Parser \<Rightarrow> Token list" where
  "upcoming p = (if Type (peekTok p) \<noteq> EOF then [peekTok p] else []) @ tokens (lexer p)"

text \<open>
  Modelled from the spec: an instance of \<open>value.Binary\<close>, which the sources at hand do
  not contain, for the examples. The spec: the operator's rule selects the rank, both
  operands are converted to it and the table's entry for the rank is called. Two integers
  hold no \<open>big.Rat\<close>, so on them the instance is \<open>Binary\<close> on values, its result being a
  new object. For \<open>**\<close> with a \<open>BigRat\<close> among two scalar operands the rank is
  \<open>bigRatType\<close>: an integer operand is converted to a new \<open>big.Rat\<close> (\<open>bigRatInt64\<close>), a
  \<open>BigRat\<close> is passed as it is, with its reference, and the entry is \<open>powBigRatRef\<close>,
  which returns \<open>one\<close> or its new rational. The instance covers no other call and fails
  there.
\<close>

fun plainValue :: "RefValue \<Rightarrow> Value option" where
  "plainValue (IntR x) = Some (IntV x)"
| "plainValue (BigIntR i) = Some (BigInt i)"
| "plainValue (BigRatR r) = None"
| "plainValue (VectorR xs) = None"

fun toBigRatRef :: "RefValue \<Rightarrow> RatStore \<Rightarrow> Error + ref \<times> RatStore" where
  "toBigRatRef (IntR x) s = Inr (newRat (sint x) 1 s)"
| "toBigRatRef (BigIntR i) s = Inr (newRat i 1 s)"
| "toBigRatRef (BigRatR r) s = Inr (r, s)"
| "toBigRatRef (VectorR xs) s = Inl (Panic ''vector to big rat'')"

definition exampleBinary :: binaryRef where
  "exampleBinary u op v s =
     (case (plainValue u, plainValue v) of
        (Some a, Some b) \<Rightarrow>
          (case Binary a op b of
             Inl e \<Rightarrow> (Inl e, s)
           | Inr r \<Rightarrow> (let (z, s1) = allocValue r s in (Inr z, s1)))
      | _ \<Rightarrow>
          if op = ''**'' then
            (case toBigRatRef u s of
               Inl e \<Rightarrow> (Inl e, s)
             | Inr (ru, s1) \<Rightarrow>
                 (case toBigRatRef v s1 of
                    Inl e \<Rightarrow> (Inl e, s1)
                  | Inr (rv, s2) \<Rightarrow>
                      (case powBigRatRef ru rv s2 of
                         Inl e \<Rightarrow> (Inl e, s2)
                       | Inr (ReturnsOne, s3) \<Rightarrow> (Inr (IntR 1), s3)
                       | Inr (ReturnsRat z, s3) \<Rightarrow> (Inr (BigRatR z), s3))))
          else (Inl (UnknownOperator op), s))"

text \<open>
  An instance of the external functions, for the examples: literals are unsigned decimal
  numbers, there is no unary operator, \<open>value.Binary\<close> is the instance above, and
  \<open>special\<close> does nothing.
\<close>

fun readDecimal :: "string \<Rightarrow> int \<Rightarrow> int option" where
  "readDecimal [] acc = Some acc"
| "readDecimal (c # cs) acc =
     (if 48 \<le> (of_char c :: int) \<and> (of_char c :: int) \<le> 57
      then readDecimal cs (10 * acc + ((of_char c :: int) - 48))
      else None)"

definition decimalExternals :: Externals where
  "decimalExternals =
     \<lparr> SetIntString = (\<lambda>s. case (if s = [] then None else readDecimal s 0) of
                           None \<Rightarrow> Inl (Panic ''invalid syntax'')
                         | Some n \<Rightarrow> if n < 2 ^ 63 then Inr (of_int n)
                                    else Inl (Panic ''value out of range'')),
       SetBigIntString = (\<lambda>s. case (if s = [] then None else readDecimal s 0) of
                           None \<Rightarrow> Inl (Panic ''invalid syntax'')
                         | Some n \<Rightarrow> Inr n),
       SetBigRatString = (\<lambda>s. Inl (Panic ''invalid syntax'')),
       valueUnary = (\<lambda>op v s. (Inl (UnknownOperator op), s)),
       valueBinary = exampleBinary,
       special = (\<lambda>p s. (Inr (), p, s)) \<rparr>"

text \<open>A token that starts or continues a vector literal.\<close>

definition isNumber :: "Token \<Rightarrow> bool" where
  "isNumber t \<longleftrightarrow> Type t = NumberTok \<or> Type t = Rational"

text \<open>A store for an example: reference 0 holds 2/3, reference 1 holds 2.\<close>

definition exampleStore :: RatStore where
  "exampleStore = \<lparr> cell = (\<lambda>r. (0, 1))(0 := (2, 3), 1 := (2, 1)), nextRef = 2 \<rparr>"

text \<open>The store in which nothing has been allocated, and the one holding 2/3 alone.\<close>

definition emptyStore :: RatStore where
  "emptyStore = \<lparr> cell = (\<lambda>r. (0, 1)), nextRef = 0 \<rparr>"

definition twoThirds :: RatStore where
  "twoThirds = \<lparr> cell = (\<lambda>r. (0, 1))(0 := (2, 3)), nextRef = 1 \<rparr>"

text \<open>The two lines \<open>x := 2/3\<close> and \<open>x ** 2\<close>, as an input.\<close>

definition exampleInput :: Lexer where
  "exampleInput = \<lparr> FileName = ''input'', tokens =
     [\<lparr> Type = Identifier, Text = ''x'' \<rparr>, \<lparr> Type = Assign, Text = '':='' \<rparr>,
      \<lparr> Type = Rational, Text = ''2/3'' \<rparr>, \<lparr> Type = Newline, Text = [] \<rparr>,
      \<lparr> Type = Identifier, Text = ''x'' \<rparr>, \<lparr> Type = Operator, Text = ''**'' \<rparr>,
      \<lparr> Type = NumberTok, Text = ''2'' \<rparr>, \<lparr> Type = Newline, Text = [] \<rparr>] \<rparr>"

section \<open>Properties\<close>

subsection \<open>Auxiliary facts\<close>

lemma typeRule_simps [simp]:
  "typeRule idiv = binaryArithType" "typeRule imod = binaryArithType"
  "typeRule div_op = divType" "typeRule mod_op = divType" "typeRule pow = divType"
  "typeRule lsh = divType" "typeRule rsh = divType" "typeRule quo = rationalType"
  by (simp_all add: idiv_def imod_def div_op_def mod_op_def pow_def lsh_def rsh_def quo_def)

text \<open>
  Every operator of the table has one of the three rules, so the rank it selects is
  \<open>vectorType\<close> exactly when an operand is a vector: the test by which \<open>Binary\<close> dispatches
  to broadcasting and the table's entry at the selected rank agree.
\<close>

lemma binaryOps_typeRule:
  assumes "binaryOps name = Some op"
  shows "typeRule op = binaryArithType \<or> typeRule op = divType \<or> typeRule op = rationalType"
proof -
  have "op \<in> set [add, sub, mul, quo, idiv, imod, div_op, mod_op, pow, and_op, or_op, xor_op,
      lsh, rsh, eq_op, ne, lt, le, gt, ge, min_op, max_op]"
    using map_of_SomeD [OF assms [unfolded binaryOps_def]] by auto
  then show ?thesis
    by (auto simp: add_def sub_def mul_def quo_def idiv_def imod_def div_op_def mod_op_def
        pow_def and_op_def or_op_def xor_op_def lsh_def rsh_def eq_op_def ne_def lt_def le_def
        gt_def ge_def min_op_def max_op_def comparison_def)
qed

lemma vector_rank_iff:
  assumes "binaryOps name = Some op"
  shows "typeRule op (whichType u) (whichType v) = vectorType
     \<longleftrightarrow> whichType u = vectorType \<or> whichType v = vectorType"
  using binaryOps_typeRule [OF assms]
  by (cases u; cases v) (auto simp: binaryArithType_def divType_def rationalType_def)

text \<open>
  The iterations of \<open>binaryVectorOpRef\<close>: a vector is returned exactly when every call
  returns a value, the \<open>k\<close>-th call starting from the store \<open>hs ! k\<close> that the call before
  has left and leaving \<open>hs ! Suc k\<close>.
\<close>

lemma broadcastLeftRef_Inr:
  "broadcastLeftRef B x op ys h = (Inr n, h') \<longleftrightarrow>
     (\<exists>hs. length n = length ys \<and> length hs = Suc (length ys)
          \<and> hs ! 0 = h \<and> hs ! length ys = h'
          \<and> (\<forall>k<length ys. B x op (ys ! k) (hs ! k) = (Inr (n ! k), hs ! Suc k)))"
proof (induction ys arbitrary: n h)
  case Nil
  show ?case
  proof
    assume "broadcastLeftRef B x op [] h = (Inr n, h')"
    then have "n = []" "h' = h" by simp_all
    then show "\<exists>hs. length n = length [] \<and> length hs = Suc (length [])
          \<and> hs ! 0 = h \<and> hs ! length [] = h'
          \<and> (\<forall>k<length []. B x op ([] ! k) (hs ! k) = (Inr (n ! k), hs ! Suc k))"
      by (intro exI [of _ "[h]"]) simp
  next
    assume "\<exists>hs. length n = length [] \<and> length hs = Suc (length [])
          \<and> hs ! 0 = h \<and> hs ! length [] = h'
          \<and> (\<forall>k<length []. B x op ([] ! k) (hs ! k) = (Inr (n ! k), hs ! Suc k))"
    then show "broadcastLeftRef B x op [] h = (Inr n, h')" by auto
  qed
next
  case (Cons y ys)
  obtain r h1 where b: "B x op y h = (r, h1)" by (cases "B x op y h")
  show ?case
  proof
    assume a: "broadcastLeftRef B x op (y # ys) h = (Inr n, h')"
    then obtain r0 where r: "r = Inr r0" using b by (cases r) auto
    obtain rs where rest: "broadcastLeftRef B x op ys h1 = (Inr rs, h')" and n: "n = r0 # rs"
      using a b r by (auto split: prod.splits sum.splits)
    obtain hs where hs: "length rs = length ys" "length hs = Suc (length ys)"
      "hs ! 0 = h1" "hs ! length ys = h'"
      "\<forall>k<length ys. B x op (ys ! k) (hs ! k) = (Inr (rs ! k), hs ! Suc k)"
      using Cons.IH [of h1 rs] rest by blast
    have "\<forall>k<length (y # ys). B x op ((y # ys) ! k) ((h # hs) ! k)
            = (Inr (n ! k), (h # hs) ! Suc k)"
    proof (intro allI impI)
      fix k assume "k < length (y # ys)"
      then show "B x op ((y # ys) ! k) ((h # hs) ! k) = (Inr (n ! k), (h # hs) ! Suc k)"
        using b r n hs(3) hs(5) by (cases k) simp_all
    qed
    then show "\<exists>hs. length n = length (y # ys) \<and> length hs = Suc (length (y # ys))
          \<and> hs ! 0 = h \<and> hs ! length (y # ys) = h'
          \<and> (\<forall>k<length (y # ys). B x op ((y # ys) ! k) (hs ! k) = (Inr (n ! k), hs ! Suc k))"
      using n hs(1) hs(2) hs(4) by (intro exI [of _ "h # hs"]) simp
  next
    assume "\<exists>hs. length n = length (y # ys) \<and> length hs = Suc (length (y # ys))
          \<and> hs ! 0 = h \<and> hs ! length (y # ys) = h'
          \<and> (\<forall>k<length (y # ys). B x op ((y # ys) ! k) (hs ! k) = (Inr (n ! k), hs ! Suc k))"
    then obtain hs where hs: "length n = length (y # ys)" "length hs = Suc (length (y # ys))"
      "hs ! 0 = h" "hs ! length (y # ys) = h'"
      "\<forall>k<length (y # ys). B x op ((y # ys) ! k) (hs ! k) = (Inr (n ! k), hs ! Suc k)"
      by blast
    obtain r0 rs where n: "n = r0 # rs" using hs(1) by (cases n) auto
    obtain g gs where g: "hs = g # gs" using hs(2) by (cases hs) auto
    have first: "B x op y h = (Inr r0, gs ! 0)"
      using hs(5) hs(3) n g by (auto dest: spec [of _ 0])
    have "\<forall>k<length ys. B x op (ys ! k) (gs ! k) = (Inr (rs ! k), gs ! Suc k)"
    proof (intro allI impI)
      fix k assume "k < length ys"
      then have "Suc k < length (y # ys)" by simp
      then show "B x op (ys ! k) (gs ! k) = (Inr (rs ! k), gs ! Suc k)"
        using hs(5) n g by (auto dest: spec [of _ "Suc k"])
    qed
    then have "broadcastLeftRef B x op ys (gs ! 0) = (Inr rs, h')"
      using Cons.IH [of "gs ! 0" rs] hs(1) hs(2) hs(4) n g by auto
    then show "broadcastLeftRef B x op (y # ys) h = (Inr n, h')"
      using first n by simp
  qed
qed

lemma broadcastRightRef_Inr:
  "broadcastRightRef B xs op y h = (Inr n, h') \<longleftrightarrow>
     (\<exists>hs. length n = length xs \<and> length hs = Suc (length xs)
          \<and> hs ! 0 = h \<and> hs ! length xs = h'
          \<and> (\<forall>k<length xs. B (xs ! k) op y (hs ! k) = (Inr (n ! k), hs ! Suc k)))"
proof (induction xs arbitrary: n h)
  case Nil
  show ?case
  proof
    assume "broadcastRightRef B [] op y h = (Inr n, h')"
    then have "n = []" "h' = h" by simp_all
    then show "\<exists>hs. length n = length [] \<and> length hs = Suc (length [])
          \<and> hs ! 0 = h \<and> hs ! length [] = h'
          \<and> (\<forall>k<length []. B ([] ! k) op y (hs ! k) = (Inr (n ! k), hs ! Suc k))"
      by (intro exI [of _ "[h]"]) simp
  next
    assume "\<exists>hs. length n = length [] \<and> length hs = Suc (length [])
          \<and> hs ! 0 = h \<and> hs ! length [] = h'
          \<and> (\<forall>k<length []. B ([] ! k) op y (hs ! k) = (Inr (n ! k), hs ! Suc k))"
    then show "broadcastRightRef B [] op y h = (Inr n, h')" by auto
  qed
next
  case (Cons x xs)
  obtain r h1 where b: "B x op y h = (r, h1)" by (cases "B x op y h")
  show ?case
  proof
    assume a: "broadcastRightRef B (x # xs) op y h = (Inr n, h')"
    then obtain r0 where r: "r = Inr r0" using b by (cases r) auto
    obtain rs where rest: "broadcastRightRef B xs op y h1 = (Inr rs, h')" and n: "n = r0 # rs"
      using a b r by (auto split: prod.splits sum.splits)
    obtain hs where hs: "length rs = length xs" "length hs = Suc (length xs)"
      "hs ! 0 = h1" "hs ! length xs = h'"
      "\<forall>k<length xs. B (xs ! k) op y (hs ! k) = (Inr (rs ! k), hs ! Suc k)"
      using Cons.IH [of h1 rs] rest by blast
    have "\<forall>k<length (x # xs). B ((x # xs) ! k) op y ((h # hs) ! k)
            = (Inr (n ! k), (h # hs) ! Suc k)"
    proof (intro allI impI)
      fix k assume "k < length (x # xs)"
      then show "B ((x # xs) ! k) op y ((h # hs) ! k) = (Inr (n ! k), (h # hs) ! Suc k)"
        using b r n hs(3) hs(5) by (cases k) simp_all
    qed
    then show "\<exists>hs. length n = length (x # xs) \<and> length hs = Suc (length (x # xs))
          \<and> hs ! 0 = h \<and> hs ! length (x # xs) = h'
          \<and> (\<forall>k<length (x # xs). B ((x # xs) ! k) op y (hs ! k) = (Inr (n ! k), hs ! Suc k))"
      using n hs(1) hs(2) hs(4) by (intro exI [of _ "h # hs"]) simp
  next
    assume "\<exists>hs. length n = length (x # xs) \<and> length hs = Suc (length (x # xs))
          \<and> hs ! 0 = h \<and> hs ! length (x # xs) = h'
          \<and> (\<forall>k<length (x # xs). B ((x # xs) ! k) op y (hs ! k) = (Inr (n ! k), hs ! Suc k))"
    then obtain hs where hs: "length n = length (x # xs)" "length hs = Suc (length (x # xs))"
      "hs ! 0 = h" "hs ! length (x # xs) = h'"
      "\<forall>k<length (x # xs). B ((x # xs) ! k) op y (hs ! k) = (Inr (n ! k), hs ! Suc k)"
      by blast
    obtain r0 rs where n: "n = r0 # rs" using hs(1) by (cases n) auto
    obtain g gs where g: "hs = g # gs" using hs(2) by (cases hs) auto
    have first: "B x op y h = (Inr r0, gs ! 0)"
      using hs(5) hs(3) n g by (auto dest: spec [of _ 0])
    have "\<forall>k<length xs. B (xs ! k) op y (gs ! k) = (Inr (rs ! k), gs ! Suc k)"
    proof (intro allI impI)
      fix k assume "k < length xs"
      then have "Suc k < length (x # xs)" by simp
      then show "B (xs ! k) op y (gs ! k) = (Inr (rs ! k), gs ! Suc k)"
        using hs(5) n g by (auto dest: spec [of _ "Suc k"])
    qed
    then have "broadcastRightRef B xs op y (gs ! 0) = (Inr rs, h')"
      using Cons.IH [of "gs ! 0" rs] hs(1) hs(2) hs(4) n g by auto
    then show "broadcastRightRef B (x # xs) op y h = (Inr n, h')"
      using first n by simp
  qed
qed

lemma ValueSliceRef_result:
  "(case res of (Inl e, s1) \<Rightarrow> (Inl e, s1) | (Inr n, s1) \<Rightarrow> (Inr (ValueSliceRef n), s1)) = (Inr r, h')
     \<longleftrightarrow> (\<exists>n. r = VectorR n \<and> res = (Inr n, h'))"
  by (cases res) (auto simp: ValueSliceRef_def split: sum.splits)

text \<open>\<open>shrink\<close> keeps the number a value stands for, and \<open>ToType\<close> to BigRational rank too.\<close>

lemma sint_shrinkBigInt:
  "- (2 ^ 63) \<le> i \<Longrightarrow> i < 2 ^ 63 \<Longrightarrow> sint (word_of_int i :: 64 word) = i"
  by (simp add: sint_sbintrunc' signed_take_bit_int_eq_self)

lemma scalarValue_shrinkBigInt: "scalarValue (shrinkBigInt i) = Some (of_int i)"
  by (simp add: sint_shrinkBigInt)

lemma rat_of_quotient_one: "snd (quotient_of r) = 1 \<Longrightarrow> of_int (fst (quotient_of r)) = r"
  using quotient_of_div [of r "fst (quotient_of r)" 1] by (simp add: prod_eq_iff)

lemma scalarValue_shrink: "scalarValue (shrink v) = scalarValue v"
proof (cases v)
  case (BigRat r)
  then show ?thesis
    using rat_of_quotient_one [of r] scalarValue_shrinkBigInt [of "fst (quotient_of r)"]
    by (simp del: shrinkBigInt.simps)
qed (simp_all del: shrinkBigInt.simps add: scalarValue_shrinkBigInt)

lemma ToType_bigRatType:
  "scalarValue a = Some x \<Longrightarrow> ToType a bigRatType = Inr (BigRat x)"
  by (cases a) auto

lemma whichType_scalar: "scalarValue a = Some x \<Longrightarrow> whichType a < vectorType"
  by (cases a) auto

lemma rationalType_max: "rationalType t1 t2 = max bigRatType (max t1 t2)"
  by (auto simp: rationalType_def binaryArithType_def)

lemma binaryOps_quo: "binaryOps ''/'' = Some quo"
  by (simp add: binaryOps_def)

lemma Binary_quo_scalars:
  assumes "scalarValue a = Some x" and "scalarValue b = Some y"
  shows "Binary a ''/'' b =
     (if y = 0 then Inl DivisionByZero else Inr (shrink (BigRat (x / y))))"
proof -
  have w: "rationalType (whichType a) (whichType b) = bigRatType"
    using whichType_scalar [OF assms(1)] whichType_scalar [OF assms(2)]
    by (auto simp: rationalType_def binaryArithType_def)
  have v: "whichType a \<noteq> vectorType" "whichType b \<noteq> vectorType"
    using whichType_scalar [OF assms(1)] whichType_scalar [OF assms(2)] by auto
  show ?thesis
    using v
    using ToType_bigRatType [OF assms(1)] ToType_bigRatType [OF assms(2)]
    by (simp add: Binary.simps binaryOps_quo quo_def w binaryBigRatOp_def sgn_eq_0_iff
        del: shrink.simps)
qed

text \<open>The two entries of \<open>pow\<close>, for a positive exponent and for an integral one.\<close>

lemma fn_pow: "fn pow bigIntType = Some powBigInt" "fn pow bigRatType = Some powBigRat"
  by (simp_all add: pow_def)

lemma quotient_of_power:
  "quotient_of (Fract (fst (quotient_of q) ^ n) (snd (quotient_of q) ^ n))
     = (fst (quotient_of q) ^ n, snd (quotient_of q) ^ n)"
proof -
  obtain a b where q: "quotient_of q = (a, b)" by (cases "quotient_of q")
  have "0 < b" "coprime a b"
    using quotient_of_denom_pos [OF q] quotient_of_coprime [OF q] by simp_all
  then show ?thesis by (simp add: q quotient_of_Fract)
qed

lemma powBigInt_positive:
  "0 < v \<Longrightarrow> powBigInt (BigInt u) (BigInt v) = Inr (shrink (BigInt (u ^ nat v)))"
  by (simp add: binaryBigIntOp_def bigIntPow_def del: shrinkBigInt.simps)

lemma powBigRat_integral:
  "0 \<le> e \<Longrightarrow> powBigRat (BigRat q) (BigRat (of_int e)) =
     Inr (if e = 0 then one
          else BigRat (Fract (fst (quotient_of q) ^ nat e) (snd (quotient_of q) ^ nat e)))"
  by (simp add: bigIntPow_def Let_def sgn_if)

text \<open>
  \<open>Peek\<close> shows the first of the tokens to come and keeps them; \<open>Next\<close> takes it. So
  \<open>vectorLoop\<close> reads a run of number tokens to its end.
\<close>

lemma Peek_upcoming: "fst (Peek p) = (case upcoming p of [] \<Rightarrow> eofToken | t # ts \<Rightarrow> t)"
  by (auto simp: Peek_def upcoming_def lexNext_def Let_def split: list.splits prod.splits)

lemma Peek_upcoming_keep:
  "upcoming p = t # us \<Longrightarrow> Type t \<noteq> EOF \<Longrightarrow> upcoming (snd (Peek p)) = t # us"
  by (auto simp: Peek_def upcoming_def lexNext_def Let_def split: list.splits prod.splits if_splits)

lemma Next_upcoming:
  "upcoming p = t # us \<Longrightarrow> Type t \<noteq> EOF \<Longrightarrow>
     fst (Next p) = t \<and> upcoming (snd (Next p)) = us"
  by (auto simp: Next_def upcoming_def lexNext_def eofToken_def Let_def
      split: list.splits prod.splits if_splits)

lemma Number_parses: "ValueString X (Text t) = Inr (Inr x) \<Longrightarrow> Number X t p = (Inr x, p)"
  by (simp add: Number_def)

lemma vectorLoop_stop:
  "ty \<noteq> NumberTok \<Longrightarrow> ty \<noteq> Rational \<Longrightarrow> vectorLoop X v ty p = (Inr v, p)"
  by (simp add: vectorLoop.simps)

lemma vectorLoop_run:
  assumes "list_all2 (\<lambda>t x. ValueString X (Text t) = Inr (Inr x)) ts xs"
    and "\<forall>t\<in>set ts. isNumber t"
    and "rest = [] \<or> \<not> isNumber (hd rest)"
    and "ts \<noteq> []"
    and "upcoming p = ts @ rest"
  shows "fst (vectorLoop X v (Type (hd ts)) p) = Inr (v @ xs)"
  using assms
proof (induction ts xs arbitrary: v p rule: list_all2_induct)
  case Nil
  then show ?case by simp
next
  case (Cons t ts x xs)
  have num: "isNumber t" using Cons.prems by simp
  then have ne: "Type t \<noteq> EOF" by (auto simp: isNumber_def)
  obtain p1 where n: "Next p = (t, p1)" and u1: "upcoming p1 = ts @ rest"
    using Next_upcoming [of p t "ts @ rest"] Cons.prems ne by (cases "Next p") auto
  have m: "Number X t p1 = (Inr x, p1)" using Cons.hyps by (simp add: Number_parses)
  obtain t' p2 where k: "Peek p1 = (t', p2)" by (cases "Peek p1")
  have step: "vectorLoop X v (Type t) p = vectorLoop X (v @ [x]) (Type t') p2"
    using num n m k by (subst vectorLoop.simps) (auto simp: isNumber_def)
  show ?case
  proof (cases ts)
    case Nil
    then have "xs = []" using Cons.hyps by simp
    have "t' = (case rest of [] \<Rightarrow> eofToken | r # rs \<Rightarrow> r)"
      using Peek_upcoming [of p1] k u1 Nil by simp
    then have "\<not> isNumber t'"
      using Cons.prems(2) by (cases rest) (auto simp: isNumber_def eofToken_def)
    then show ?thesis
      using step \<open>xs = []\<close> by (simp add: vectorLoop_stop isNumber_def)
  next
    case (Cons t2 ts2)
    have ne2: "Type t2 \<noteq> EOF" using Cons.prems(1) Cons by (auto simp: isNumber_def)
    have "t' = t2" using Peek_upcoming [of p1] k u1 Cons by simp
    moreover have "upcoming p2 = ts @ rest"
      using Peek_upcoming_keep [of p1 t2 "ts2 @ rest"] k u1 Cons ne2 by simp
    ultimately show ?thesis
      using step Cons.IH [of p2 "v @ [x]"] Cons.prems Cons by simp
  qed
qed

text \<open>What \<open>ValueString\<close> reads is a scalar.\<close>

lemma shrink_scalar: "whichType (shrink v) = vectorType \<longleftrightarrow> whichType v = vectorType"
  by (cases v) auto

lemma ValueString_scalar:
  assumes "ValueString X s = Inr (Inr x)"
  shows "whichType x \<noteq> vectorType"
proof (cases "CHR ''/'' \<in> set s")
  case False
  then show ?thesis
    using assms shrink_scalar [of "BigInt b" for b] shrink_scalar [of "BigRat r" for r]
    by (subst (asm) ValueString.simps) (auto simp del: shrink.simps split: sum.splits)
next
  case True
  have a: "bigRatTwoInt64s n d = Inr r \<Longrightarrow> whichType (shrink r) \<noteq> vectorType" for n d r
    using shrink_scalar [of r] by (auto simp: bigRatTwoInt64s_def split: if_splits)
  have b: "binaryBigRatOp u (/) v = Inr r \<Longrightarrow> whichType r \<noteq> vectorType" for u v r
    using shrink_scalar [of "BigRat q" for q]
    by (cases u; cases v) (auto simp: binaryBigRatOp_def simp del: shrink.simps)
  show ?thesis
    using assms True a b
    by (subst (asm) ValueString.simps)
      (auto simp add: Let_def simp del: shrink.simps
        split: sum.splits if_splits Value.splits)
qed

text \<open>
  The entry of \<open>**\<close> at \<open>bigRatType\<close>, on values and on references. When the base and the
  exponent are different objects, the value that \<open>powBigRat\<close> gives is the value that
  the entry returns; what the entry leaves in its base operand, and what it returns when
  the two operands are one object, is given by \<open>powBigRatRef\<close> alone.
\<close>

lemma sgn_numerator: "sgn b = rat_of_int (sgn (fst (quotient_of b)))"
proof -
  have "sgn b = Fract (fst (quotient_of (sgn b))) (snd (quotient_of (sgn b)))"
    by (simp add: Fract_quotient_of)
  then show ?thesis by (simp add: rat_sgn_code Fract_of_int_eq)
qed

lemma Fract_normalize:
  "Fract (fst (Rat.normalize p)) (snd (Rat.normalize p)) = Fract (fst p) (snd p)"
  using quotient_of_eq [of "fst p" "snd p" "fst (Rat.normalize p)" "snd (Rat.normalize p)"]
  by (simp add: quotient_of_Fract)

lemma powBigRatRef_value:
  assumes "u \<noteq> v" and "u < nextRef s"
    and "cell s u = quotient_of a" and "cell s v = quotient_of b"
  shows "powBigRat (BigRat a) (BigRat b)
     = map_sum id
         (\<lambda>(r, s'). case r of
              ReturnsOne \<Rightarrow> one
            | ReturnsRat z \<Rightarrow> BigRat (Fract (fst (cell s' z)) (snd (cell s' z))))
         (powBigRatRef u v s)"
proof -
  have z: "sgn b = 0 \<longleftrightarrow> sgn (fst (quotient_of b)) = 0"
    "sgn b = - 1 \<longleftrightarrow> sgn (fst (quotient_of b)) = - 1"
    unfolding sgn_numerator [of b] by (simp_all add: sgn_if)
  show ?thesis
    using assms z
    by (simp add: powBigRatRef_def setNum_def setDenom_def newRat_def setFrac_def Let_def
        Fract_normalize split: prod.splits)
qed

text \<open>The two kinds of line, each with the steps that \<open>Line\<close> takes as its assumptions.\<close>

lemma Line_assignment:
  assumes "Next p = (tok, p1)" and "Type tok = Identifier" and "Text tok \<noteq> []"
    and "Peek p1 = (nx, p2)" and "Type nx = Assign"
    and "Next p2 = (a, p3)" and "Next p3 = (tok1, p4)"
    and "Expr X tok1 p4 h = (Inr x, p5, h5)"
    and "Next p5 = (e, p6)" and "Type e = Newline \<or> Type e = EOF"
    and "Eval X x h5 = (Inr val, h6)"
  shows "Line X p h = (Inr (None, True),
                       p6\<lparr> vars := (vars p6)(''_'' \<mapsto> val, Text tok \<mapsto> val) \<rparr>, h6)"
  using assms by (auto simp add: Line_def lineHead_def Let_def)

lemma Line_expression:
  assumes "Next p = (tok, p1)"
    and "Type tok \<noteq> EOF" and "Type tok \<noteq> ErrorTok" and "Type tok \<noteq> RightParen"
    and "Type tok \<noteq> Newline"
    and "(Type tok \<noteq> Identifier \<and> p2 = p1)
         \<or> (Type tok = Identifier \<and> Peek p1 = (nx, p2) \<and> Type nx \<noteq> Assign)"
    and "Expr X tok p2 h = (Inr x, p3, h3)"
    and "Next p3 = (e, p4)" and "Type e = Newline \<or> Type e = EOF"
    and "Eval X x h3 = (Inr val, h4)"
  shows "Line X p h = (Inr (Some val, True), p4\<lparr> vars := (vars p4)(''_'' \<mapsto> val) \<rparr>, h4)"
  using assms by (auto simp add: Line_def lineHead_def Let_def)

subsection \<open>Result ranks and scalar operators\<close>

text \<open>
  Claim C1, as the code has it: \<open>idiv\<close> and \<open>imod\<close> select the result rank by standard
  promotion, the larger of the two operand ranks, so that two SmallInt operands are
  divided at SmallInt rank; the rule that never goes below BigInt is the one of the
  Euclidean \<open>div\<close> and \<open>mod\<close>, of the power and of the two shifts.
\<close>

theorem idiv_imod_rank:
  "typeRule idiv t1 t2 = max t1 t2 \<and> typeRule imod t1 t2 = max t1 t2
   \<and> typeRule div_op t1 t2 = max bigIntType (max t1 t2)
   \<and> typeRule mod_op t1 t2 = max bigIntType (max t1 t2)
   \<and> typeRule pow t1 t2 = max bigIntType (max t1 t2)
   \<and> typeRule lsh t1 t2 = max bigIntType (max t1 t2)
   \<and> typeRule rsh t1 t2 = max bigIntType (max t1 t2)"
  by (auto simp add: binaryArithType_def divType_def)

text \<open>
  Claim C1, as stated, fails: for two SmallInt operands the rank that \<open>idiv\<close> selects is
  not the larger of BigInt and the two operand ranks.
\<close>

theorem idiv_imod_rank_counterexample:
  "typeRule idiv (whichType (IntV 7)) (whichType (IntV 2))
     \<noteq> max bigIntType (max (whichType (IntV 7)) (whichType (IntV 2)))"
  by (simp add: binaryArithType_def)

text \<open>
  Claim C5: for two scalar operands, \<open>/\<close> selects the larger of BigRational and the two
  operand ranks; it fails with "division by zero" exactly when the divisor is zero, and
  otherwise returns the exact quotient of the two numbers.
\<close>

theorem quo_true_division:
  assumes "scalarValue a = Some x" and "scalarValue b = Some y"
  shows "typeRule quo (whichType a) (whichType b)
           = max bigRatType (max (whichType a) (whichType b))
     \<and> (Binary a ''/'' b = Inl DivisionByZero \<longleftrightarrow> y = 0)
     \<and> (y \<noteq> 0 \<longrightarrow>
          Binary a ''/'' b = Inr (shrink (BigRat (x / y)))
          \<and> scalarValue (shrink (BigRat (x / y))) = Some (x / y))"
  using Binary_quo_scalars [OF assms]
  by (simp add: quo_def rationalType_max scalarValue_shrink del: shrink.simps)

theorem quo_true_division_witness:
  "Binary (IntV 1) ''/'' (IntV 3) = Inr (BigRat (1 / 3))
   \<and> Binary (BigInt 7) ''/'' (IntV 0) = Inl DivisionByZero
   \<and> Binary (BigRat (3 / 2)) ''/'' (BigRat (1 / 2)) = Inr (IntV 3)"
proof -
  have q: "quotient_of (1 / 3) = (1, 3)" "quotient_of 3 = (3, 1)" by code_simp+
  show ?thesis
    using quo_true_division [of "IntV 1" 1 "IntV 3" 3]
      quo_true_division [of "BigInt 7" 7 "IntV 0" 0]
      quo_true_division [of "BigRat (3 / 2)" "3 / 2" "BigRat (1 / 2)" "1 / 2"] q
    by simp
qed

text \<open>
  Claim C7: at BigInt rank \<open>**\<close> returns 1 for the exponent zero, fails with "negative
  exponent not implemented" for a negative exponent, and otherwise returns the integer
  power; at BigRational rank, for an exponent that is a non-negative integer \<open>e\<close>, the result
  is the rational whose numerator and denominator are those of the base, each raised to \<open>e\<close>.
\<close>

theorem pow_by_rank:
  "fn pow bigIntType = Some powBigInt \<and> fn pow bigRatType = Some powBigRat
   \<and> powBigInt (BigInt u) (BigInt 0) = Inr one \<and> scalarValue one = Some 1
   \<and> (v < 0 \<longrightarrow> powBigInt (BigInt u) (BigInt v) = Inl NegativeExponent)
   \<and> (0 < v \<longrightarrow>
        powBigInt (BigInt u) (BigInt v) = Inr (shrink (BigInt (u ^ nat v)))
        \<and> scalarValue (shrink (BigInt (u ^ nat v))) = Some (of_int (u ^ nat v)))
   \<and> (0 \<le> e \<longrightarrow>
        (\<exists>r. powBigRat (BigRat q) (BigRat (of_int e)) = Inr r
           \<and> scalarValue r
               = Some (Fract (fst (quotient_of q) ^ nat e) (snd (quotient_of q) ^ nat e)))
        \<and> quotient_of (Fract (fst (quotient_of q) ^ nat e) (snd (quotient_of q) ^ nat e))
            = (fst (quotient_of q) ^ nat e, snd (quotient_of q) ^ nat e))"
proof (intro conjI impI)
  show "fn pow bigIntType = Some powBigInt" "fn pow bigRatType = Some powBigRat"
    by (rule fn_pow)+
  show "powBigInt (BigInt u) (BigInt 0) = Inr one" by simp
  show "scalarValue one = Some 1" by (simp add: one_def valueInt64_def)
  show "powBigInt (BigInt u) (BigInt v) = Inl NegativeExponent" if "v < 0"
    using that by simp
  show "powBigInt (BigInt u) (BigInt v) = Inr (shrink (BigInt (u ^ nat v)))" if "0 < v"
    using that by (rule powBigInt_positive)
  show "scalarValue (shrink (BigInt (u ^ nat v))) = Some (of_int (u ^ nat v))"
    by (simp add: scalarValue_shrink del: shrink.simps)
  show "\<exists>r. powBigRat (BigRat q) (BigRat (of_int e)) = Inr r
           \<and> scalarValue r
               = Some (Fract (fst (quotient_of q) ^ nat e) (snd (quotient_of q) ^ nat e))"
    if "0 \<le> e"
    using powBigRat_integral [OF that, of q]
    by (cases "e = 0") (simp_all add: one_def valueInt64_def One_rat_def)
  show "quotient_of (Fract (fst (quotient_of q) ^ nat e) (snd (quotient_of q) ^ nat e))
            = (fst (quotient_of q) ^ nat e, snd (quotient_of q) ^ nat e)"
    by (rule quotient_of_power)
qed

theorem pow_by_rank_witness:
  "powBigInt (BigInt 2) (BigInt (- 1)) = Inl NegativeExponent
   \<and> powBigInt (BigInt 2) (BigInt 10) = Inr (IntV 1024)
   \<and> powBigRat (BigRat (Fract 2 3)) (BigRat 2) = Inr (BigRat (Fract 4 9))
   \<and> quotient_of (Fract 4 9) = (4, 9)"
proof -
  have q: "quotient_of (Fract 2 3) = (2, 3)" "shrink (BigInt 1024) = IntV 1024"
    "powBigRat (BigRat (Fract 2 3)) (BigRat 2) = Inr (BigRat (Fract 4 9))"
    by code_simp+
  show ?thesis
    using pow_by_rank [of 2 "- 1" 2 "Fract 2 3"] pow_by_rank [of 2 10 2 "Fract 2 3"] q
    by (simp del: shrink.simps)
qed

text \<open>
  Claim C3 fails on the code: raising the rational held at reference 0, 2/3, to the power
  2 returns a new rational 4/9, as the entry on values does, and leaves 4/9 at reference 0
  as well: the base operand has been changed.
\<close>

theorem powBigRat_changes_base:
  "cell exampleStore 0 = (2, 3)
   \<and> map_sum id (\<lambda>(r, s). (r, cell s 0, cell s 1, cell s 2)) (powBigRatRef 0 1 exampleStore)
       = Inr (ReturnsRat 2, (4, 9), (2, 1), (4, 9))
   \<and> powBigRat (BigRat (Fract 2 3)) (BigRat (Fract 2 1)) = Inr (BigRat (Fract 4 9))"
  by code_simp

text \<open>
  Claim C4 fails on the code: the entry of \<open>**\<close> at BigRational rank returns its result
  as it is, so \<open>2 ** 1/2\<close> is the BigRational 2/1, which \<open>shrink\<close> would make the
  SmallInt 2; likewise the square of the BigRational 3/1 that \<open>3 max 1/2\<close> returns.
\<close>

theorem powBigRat_not_shrunk:
  "powBigRat (BigRat (Fract 2 1)) (BigRat (Fract 1 2)) = Inr (BigRat (Fract 2 1))
   \<and> Binary (IntV 2) ''**'' (BigRat (Fract 1 2)) = Inr (BigRat (Fract 2 1))
   \<and> whichType (BigRat (Fract 2 1)) = bigRatType
   \<and> shrink (BigRat (Fract 2 1)) = IntV 2
   \<and> Binary (IntV 3) ''max'' (BigRat (Fract 1 2)) = Inr (BigRat (Fract 3 1))
   \<and> Binary (BigRat (Fract 3 1)) ''**'' (IntV 2) = Inr (BigRat (Fract 9 1))"
  by code_simp

subsection \<open>Vectors\<close>

text \<open>
  Claim C2 fails on the code: the entry of \<open>max\<close> at \<open>vectorType\<close> calls \<open>binaryVectorOp\<close>
  with the name \<open>min\<close>, so the maximum of two vectors is their elementwise minimum,
  while on two scalars \<open>max\<close> is the maximum.
\<close>

theorem max_of_vectors_is_min:
  "Binary (Vector [IntV 1, IntV 5]) ''max'' (Vector [IntV 3, IntV 2]) = Inr (Vector [IntV 1, IntV 2])
   \<and> Binary (IntV 1) ''max'' (IntV 3) = Inr (IntV 3)
   \<and> Binary (IntV 5) ''max'' (IntV 2) = Inr (IntV 5)
   \<and> vectorFn max_op = ''min''
   \<and> Binary (Vector u) ''max'' (Vector v) = Binary (Vector u) ''min'' (Vector v)"
proof (intro conjI)
  show "Binary (Vector [IntV 1, IntV 5]) ''max'' (Vector [IntV 3, IntV 2])
      = Inr (Vector [IntV 1, IntV 2])"
    "Binary (IntV 1) ''max'' (IntV 3) = Inr (IntV 3)"
    "Binary (IntV 5) ''max'' (IntV 2) = Inr (IntV 5)"
    by code_simp+
  show "vectorFn max_op = ''min''" by (simp add: max_op_def)
  show "Binary (Vector u) ''max'' (Vector v) = Binary (Vector u) ''min'' (Vector v)"
    by (simp add: Binary.simps binaryOps_def max_op_def min_op_def binaryArithType_def)
qed

text \<open>
  Claim C6, on values as the program holds them and for every function \<open>B\<close> in the place
  of \<open>value.Binary\<close>: when \<open>u\<close> has one element, \<open>binaryVectorOpRef\<close> returns a vector
  exactly when each call of \<open>B\<close> on that element and an element of \<open>v\<close> returns a value,
  the calls being made in ascending order, each from the store that the call before has
  left; the vector then has the length of \<open>v\<close> and the values returned as its elements.
  Symmetrically when \<open>v\<close> has one element. Two vectors of different lengths, neither of
  them 1, give the error "length mismatch" with both lengths, no vector and no call of
  \<open>B\<close>: the store is as before. (The element of \<open>u\<close> passed to every call is the same
  object, so a call that writes to its operand, as \<open>**\<close> at BigRational rank does, is
  seen by the calls after it: for \<open>2/3 ** 2 2\<close> the values returned are 4/9 and 16/81.)
\<close>

theorem binaryVectorOpRef_broadcast:
  "(length u = 1 \<longrightarrow>
      (binaryVectorOpRef B (VectorR u) op (VectorR v) h = (Inr r, h') \<longleftrightarrow>
         (\<exists>n hs. r = VectorR n \<and> length n = length v \<and> length hs = Suc (length v)
              \<and> hs ! 0 = h \<and> hs ! length v = h'
              \<and> (\<forall>k<length v. B (u ! 0) op (v ! k) (hs ! k) = (Inr (n ! k), hs ! Suc k)))))
   \<and> (length u \<noteq> 1 \<and> length v = 1 \<longrightarrow>
      (binaryVectorOpRef B (VectorR u) op (VectorR v) h = (Inr r, h') \<longleftrightarrow>
         (\<exists>n hs. r = VectorR n \<and> length n = length u \<and> length hs = Suc (length u)
              \<and> hs ! 0 = h \<and> hs ! length u = h'
              \<and> (\<forall>k<length u. B (u ! k) op (v ! 0) (hs ! k) = (Inr (n ! k), hs ! Suc k)))))
   \<and> (length u \<noteq> 1 \<and> length v \<noteq> 1 \<and> length u \<noteq> length v \<longrightarrow>
      binaryVectorOpRef B (VectorR u) op (VectorR v) h
        = (Inl (LengthMismatch (length u) (length v)), h))"
proof (intro conjI impI)
  assume "length u = 1"
  then have "binaryVectorOpRef B (VectorR u) op (VectorR v) h = (Inr r, h') \<longleftrightarrow>
      (\<exists>n. r = VectorR n \<and> broadcastLeftRef B (u ! 0) op v h = (Inr n, h'))"
    by (simp add: binaryVectorOpRef_def ValueSliceRef_result del: One_nat_def)
  then show "binaryVectorOpRef B (VectorR u) op (VectorR v) h = (Inr r, h') \<longleftrightarrow>
         (\<exists>n hs. r = VectorR n \<and> length n = length v \<and> length hs = Suc (length v)
              \<and> hs ! 0 = h \<and> hs ! length v = h'
              \<and> (\<forall>k<length v. B (u ! 0) op (v ! k) (hs ! k) = (Inr (n ! k), hs ! Suc k)))"
    by (simp only: broadcastLeftRef_Inr) blast
next
  assume "length u \<noteq> 1 \<and> length v = 1"
  then have "binaryVectorOpRef B (VectorR u) op (VectorR v) h = (Inr r, h') \<longleftrightarrow>
      (\<exists>n. r = VectorR n \<and> broadcastRightRef B u op (v ! 0) h = (Inr n, h'))"
    by (simp add: binaryVectorOpRef_def ValueSliceRef_result del: One_nat_def)
  then show "binaryVectorOpRef B (VectorR u) op (VectorR v) h = (Inr r, h') \<longleftrightarrow>
         (\<exists>n hs. r = VectorR n \<and> length n = length u \<and> length hs = Suc (length u)
              \<and> hs ! 0 = h \<and> hs ! length u = h'
              \<and> (\<forall>k<length u. B (u ! k) op (v ! 0) (hs ! k) = (Inr (n ! k), hs ! Suc k)))"
    by (simp only: broadcastRightRef_Inr) blast
next
  assume "length u \<noteq> 1 \<and> length v \<noteq> 1 \<and> length u \<noteq> length v"
  then show "binaryVectorOpRef B (VectorR u) op (VectorR v) h
        = (Inl (LengthMismatch (length u) (length v)), h)"
    by (simp add: binaryVectorOpRef_def sameLength_def)
qed

theorem binaryVectorOpRef_broadcast_witness:
  "fst (binaryVectorOpRef exampleBinary (VectorR [BigRatR 0]) ''**'' (VectorR [IntR 2, IntR 2])
          twoThirds)
     = Inr (VectorR [BigRatR 2, BigRatR 4])
   \<and> map (cell (snd (binaryVectorOpRef exampleBinary (VectorR [BigRatR 0]) ''**''
          (VectorR [IntR 2, IntR 2]) twoThirds))) [2, 4, 0]
     = [(4, 9), (16, 81), (16, 81)]
   \<and> fst (binaryVectorOpRef exampleBinary (VectorR [IntR 1, IntR 2, IntR 3]) ''*''
          (VectorR [IntR 2]) twoThirds)
     = Inr (VectorR [IntR 2, IntR 4, IntR 6])
   \<and> binaryVectorOpRef exampleBinary (VectorR [IntR 1, IntR 2, IntR 3]) ''+''
          (VectorR [IntR 1, IntR 2]) twoThirds
     = (Inl (LengthMismatch 3 2), twoThirds)"
proof -
  let ?B = exampleBinary
  let ?h1 = "snd (?B (BigRatR 0) ''**'' (IntR 2) twoThirds)"
  let ?h2 = "snd (?B (BigRatR 0) ''**'' (IntR 2) ?h1)"
  have a: "fst (?B (BigRatR 0) ''**'' (IntR 2) twoThirds) = Inr (BigRatR 2)"
    "fst (?B (BigRatR 0) ''**'' (IntR 2) ?h1) = Inr (BigRatR 4)"
    "map (cell ?h2) [2, 4, 0] = [(4, 9), (16, 81), (16, 81)]"
    by code_simp+
  have a': "?B (BigRatR 0) ''**'' (IntR 2) twoThirds = (Inr (BigRatR 2), ?h1)"
    "?B (BigRatR 0) ''**'' (IntR 2) ?h1 = (Inr (BigRatR 4), ?h2)"
    using a(1,2) by (simp_all add: prod_eq_iff)
  have "\<exists>n hs. VectorR [BigRatR 2, BigRatR 4] = VectorR n \<and> length n = length [IntR 2, IntR 2]
      \<and> length hs = Suc (length [IntR 2, IntR 2]) \<and> hs ! 0 = twoThirds
      \<and> hs ! length [IntR 2, IntR 2] = ?h2
      \<and> (\<forall>k<length [IntR 2, IntR 2].
            ?B ([BigRatR 0] ! 0) ''**'' ([IntR 2, IntR 2] ! k) (hs ! k) = (Inr (n ! k), hs ! Suc k))"
    using a'
    by (intro exI [of _ "[BigRatR 2, BigRatR 4]"] exI [of _ "[twoThirds, ?h1, ?h2]"])
      (simp add: All_less_Suc2 numeral_2_eq_2)
  then have left: "binaryVectorOpRef ?B (VectorR [BigRatR 0]) ''**'' (VectorR [IntR 2, IntR 2])
      twoThirds = (Inr (VectorR [BigRatR 2, BigRatR 4]), ?h2)"
    using binaryVectorOpRef_broadcast [of "[BigRatR 0]" ?B "''**''" "[IntR 2, IntR 2]" twoThirds
        "VectorR [BigRatR 2, BigRatR 4]" ?h2]
    by simp
  let ?g1 = "snd (?B (IntR 1) ''*'' (IntR 2) twoThirds)"
  let ?g2 = "snd (?B (IntR 2) ''*'' (IntR 2) ?g1)"
  let ?g3 = "snd (?B (IntR 3) ''*'' (IntR 2) ?g2)"
  have b: "fst (?B (IntR 1) ''*'' (IntR 2) twoThirds) = Inr (IntR 2)"
    "fst (?B (IntR 2) ''*'' (IntR 2) ?g1) = Inr (IntR 4)"
    "fst (?B (IntR 3) ''*'' (IntR 2) ?g2) = Inr (IntR 6)"
    by code_simp+
  have b': "?B (IntR 1) ''*'' (IntR 2) twoThirds = (Inr (IntR 2), ?g1)"
    "?B (IntR 2) ''*'' (IntR 2) ?g1 = (Inr (IntR 4), ?g2)"
    "?B (IntR 3) ''*'' (IntR 2) ?g2 = (Inr (IntR 6), ?g3)"
    using b by (simp_all add: prod_eq_iff)
  have "\<exists>n hs. VectorR [IntR 2, IntR 4, IntR 6] = VectorR n
      \<and> length n = length [IntR 1, IntR 2, IntR 3]
      \<and> length hs = Suc (length [IntR 1, IntR 2, IntR 3]) \<and> hs ! 0 = twoThirds
      \<and> hs ! length [IntR 1, IntR 2, IntR 3] = ?g3
      \<and> (\<forall>k<length [IntR 1, IntR 2, IntR 3].
            ?B ([IntR 1, IntR 2, IntR 3] ! k) ''*'' ([IntR 2] ! 0) (hs ! k)
              = (Inr (n ! k), hs ! Suc k))"
    using b'
    by (intro exI [of _ "[IntR 2, IntR 4, IntR 6]"] exI [of _ "[twoThirds, ?g1, ?g2, ?g3]"])
      (simp add: All_less_Suc2 numeral_3_eq_3)
  then have right: "binaryVectorOpRef ?B (VectorR [IntR 1, IntR 2, IntR 3]) ''*''
      (VectorR [IntR 2]) twoThirds = (Inr (VectorR [IntR 2, IntR 4, IntR 6]), ?g3)"
    using binaryVectorOpRef_broadcast [of "[IntR 1, IntR 2, IntR 3]" ?B "''*''" "[IntR 2]"
        twoThirds "VectorR [IntR 2, IntR 4, IntR 6]" ?g3]
    by simp
  have mismatch: "binaryVectorOpRef ?B (VectorR [IntR 1, IntR 2, IntR 3]) ''+''
      (VectorR [IntR 1, IntR 2]) twoThirds = (Inl (LengthMismatch 3 2), twoThirds)"
    using binaryVectorOpRef_broadcast [of "[IntR 1, IntR 2, IntR 3]" ?B "''+''"
        "[IntR 1, IntR 2]" twoThirds]
    by simp
  show ?thesis
    unfolding left right mismatch using a(3) by simp
qed

subsection \<open>The parser\<close>

text \<open>
  Claim C8, with the store: a line \<open>name := expr\<close> whose expression parses to a tree that
  evaluates to a value binds the value to \<open>_\<close> and to the name and returns no value to
  print; a line that is such an expression alone binds the value to \<open>_\<close> and returns it.
  The name is the text of an identifier, which is not empty. The value is the one that
  \<open>Eval\<close> returns from the store that parsing has left, and the store after the line is
  the one that \<open>Eval\<close> has left: what the value bound and the variables of the
  environment stand for is read there. (A variable in the expression puts the
  environment's own value into the tree, so an operator that writes to its operand
  writes to the variable: after \<open>x := 2/3\<close> the line \<open>x ** 2\<close> yields 4/9 and leaves 4/9
  in \<open>x\<close> as well.)
\<close>

theorem Line_assignment_or_expression:
  "(Next p = (tok, p1) \<and> Type tok = Identifier \<and> Text tok \<noteq> []
      \<and> Peek p1 = (nx, p2) \<and> Type nx = Assign
      \<and> Next p2 = (a, p3) \<and> Next p3 = (tok1, p4)
      \<and> Expr X tok1 p4 h = (Inr x, p5, h5)
      \<and> Next p5 = (e, p6) \<and> (Type e = Newline \<or> Type e = EOF)
      \<and> Eval X x h5 = (Inr val, h6)
    \<longrightarrow> Line X p h = (Inr (None, True),
                       p6\<lparr> vars := (vars p6)(''_'' \<mapsto> val, Text tok \<mapsto> val) \<rparr>, h6))
   \<and> (Next q = (tok', q1)
      \<and> Type tok' \<noteq> EOF \<and> Type tok' \<noteq> ErrorTok \<and> Type tok' \<noteq> RightParen
      \<and> Type tok' \<noteq> Newline
      \<and> ((Type tok' \<noteq> Identifier \<and> q2 = q1)
           \<or> (Type tok' = Identifier \<and> Peek q1 = (nx', q2) \<and> Type nx' \<noteq> Assign))
      \<and> Expr X tok' q2 g = (Inr y, q3, g3)
      \<and> Next q3 = (e', q4) \<and> (Type e' = Newline \<or> Type e' = EOF)
      \<and> Eval X y g3 = (Inr w, g4)
    \<longrightarrow> Line X q g = (Inr (Some w, True), q4\<lparr> vars := (vars q4)(''_'' \<mapsto> w) \<rparr>, g4))"
proof (intro conjI impI)
  assume h: "Next p = (tok, p1) \<and> Type tok = Identifier \<and> Text tok \<noteq> []
      \<and> Peek p1 = (nx, p2) \<and> Type nx = Assign
      \<and> Next p2 = (a, p3) \<and> Next p3 = (tok1, p4)
      \<and> Expr X tok1 p4 h = (Inr x, p5, h5)
      \<and> Next p5 = (e, p6) \<and> (Type e = Newline \<or> Type e = EOF)
      \<and> Eval X x h5 = (Inr val, h6)"
  show "Line X p h = (Inr (None, True),
                     p6\<lparr> vars := (vars p6)(''_'' \<mapsto> val, Text tok \<mapsto> val) \<rparr>, h6)"
    by (rule Line_assignment [of p tok p1 nx p2 a p3 tok1 p4 X h x p5 h5 e p6 val h6])
      (use h in simp_all)
next
  assume h: "Next q = (tok', q1)
      \<and> Type tok' \<noteq> EOF \<and> Type tok' \<noteq> ErrorTok \<and> Type tok' \<noteq> RightParen
      \<and> Type tok' \<noteq> Newline
      \<and> ((Type tok' \<noteq> Identifier \<and> q2 = q1)
           \<or> (Type tok' = Identifier \<and> Peek q1 = (nx', q2) \<and> Type nx' \<noteq> Assign))
      \<and> Expr X tok' q2 g = (Inr y, q3, g3)
      \<and> Next q3 = (e', q4) \<and> (Type e' = Newline \<or> Type e' = EOF)
      \<and> Eval X y g3 = (Inr w, g4)"
  show "Line X q g = (Inr (Some w, True), q4\<lparr> vars := (vars q4)(''_'' \<mapsto> w) \<rparr>, g4)"
    by (rule Line_expression [of q tok' q1 q2 nx' X g y q3 g3 e' q4 w g4]) (use h in simp_all)
qed

theorem Line_assignment_or_expression_witness:
  "fst (Line decimalExternals (NewParser exampleInput) emptyStore) = Inr (None, True)
   \<and> map (vars (fst (snd (Line decimalExternals (NewParser exampleInput) emptyStore))))
         [''x'', ''_'']
     = [Some (BigRatR 0), Some (BigRatR 0)]
   \<and> cell (snd (snd (Line decimalExternals (NewParser exampleInput) emptyStore))) 0 = (2, 3)
   \<and> fst (Line decimalExternals
         (fst (snd (Line decimalExternals (NewParser exampleInput) emptyStore)))
         (snd (snd (Line decimalExternals (NewParser exampleInput) emptyStore))))
     = Inr (Some (BigRatR 2), True)
   \<and> map (vars (fst (snd (Line decimalExternals
         (fst (snd (Line decimalExternals (NewParser exampleInput) emptyStore)))
         (snd (snd (Line decimalExternals (NewParser exampleInput) emptyStore)))))))
         [''x'', ''_'']
     = [Some (BigRatR 0), Some (BigRatR 2)]
   \<and> map (cell (snd (snd (Line decimalExternals
         (fst (snd (Line decimalExternals (NewParser exampleInput) emptyStore)))
         (snd (snd (Line decimalExternals (NewParser exampleInput) emptyStore)))))))
         [0, 2]
     = [(4, 9), (4, 9)]"
proof -
  let ?X = decimalExternals
  let ?p = "NewParser exampleInput"
  let ?h = emptyStore
  let ?tok = "fst (Next ?p)" and ?p1 = "snd (Next ?p)"
  let ?nx = "fst (Peek ?p1)" and ?p2 = "snd (Peek ?p1)"
  let ?a = "fst (Next ?p2)" and ?p3 = "snd (Next ?p2)"
  let ?tok1 = "fst (Next ?p3)" and ?p4 = "snd (Next ?p3)"
  let ?x = "Val (BigRatR 0)"
  let ?p5 = "fst (snd (Expr ?X ?tok1 ?p4 ?h))" and ?h5 = "snd (snd (Expr ?X ?tok1 ?p4 ?h))"
  let ?e = "fst (Next ?p5)" and ?p6 = "snd (Next ?p5)"
  have a1: "Type ?tok = Identifier" "Text ?tok = ''x''" "Type ?nx = Assign"
    "fst (Expr ?X ?tok1 ?p4 ?h) = Inr ?x" "Type ?e = Newline" "cell ?h5 0 = (2, 3)"
    by code_simp+
  have a2: "Expr ?X ?tok1 ?p4 ?h = (Inr ?x, ?p5, ?h5)"
    using a1(4) by (simp add: prod_eq_iff)
  let ?q = "fst (snd (Line ?X ?p ?h))" and ?g = "snd (snd (Line ?X ?p ?h))"
  let ?tok' = "fst (Next ?q)" and ?q1 = "snd (Next ?q)"
  let ?nx' = "fst (Peek ?q1)" and ?q2 = "snd (Peek ?q1)"
  let ?y = "BinaryNode ''**'' (Val (BigRatR 0)) (Val (IntR 2))"
  let ?q3 = "fst (snd (Expr ?X ?tok' ?q2 ?g))" and ?g3 = "snd (snd (Expr ?X ?tok' ?q2 ?g))"
  let ?e' = "fst (Next ?q3)" and ?q4 = "snd (Next ?q3)"
  let ?g4 = "snd (Eval ?X ?y ?g3)"
  have b1: "Type ?tok' = Identifier" "Type ?nx' = Operator"
    "fst (Expr ?X ?tok' ?q2 ?g) = Inr ?y" "Type ?e' = Newline"
    "fst (Eval ?X ?y ?g3) = Inr (BigRatR 2)"
    "vars ?q4 ''x'' = Some (BigRatR 0)" "map (cell ?g4) [0, 2] = [(4, 9), (4, 9)]"
    by code_simp+
  have b2: "Expr ?X ?tok' ?q2 ?g = (Inr ?y, ?q3, ?g3)" "Eval ?X ?y ?g3 = (Inr (BigRatR 2), ?g4)"
    using b1(3,5) by (simp_all add: prod_eq_iff)
  note both = Line_assignment_or_expression [of ?p ?tok ?p1 ?nx ?p2 ?a ?p3 ?tok1 ?p4 ?X ?h ?x
      ?p5 ?h5 ?e ?p6 "BigRatR 0" ?h5 ?q ?tok' ?q1 ?q2 ?nx' ?g ?y ?q3 ?g3 ?e' ?q4 "BigRatR 2" ?g4]
  have second: "Line ?X ?q ?g = (Inr (Some (BigRatR 2), True),
      ?q4\<lparr> vars := (vars ?q4)(''_'' \<mapsto> BigRatR 2) \<rparr>, ?g4)"
    using both b1 b2 by simp
  have first: "Line ?X ?p ?h = (Inr (None, True),
      ?p6\<lparr> vars := (vars ?p6)(''_'' \<mapsto> BigRatR 0, Text ?tok \<mapsto> BigRatR 0) \<rparr>, ?h5)"
    using both a1 a2 by simp
  have "fst (Line ?X ?p ?h) = Inr (None, True)"
    "map (vars (fst (snd (Line ?X ?p ?h)))) [''x'', ''_''] = [Some (BigRatR 0), Some (BigRatR 0)]"
    "cell (snd (snd (Line ?X ?p ?h))) 0 = (2, 3)"
    unfolding first using a1 by simp_all
  moreover have "fst (Line ?X ?q ?g) = Inr (Some (BigRatR 2), True)"
    "map (vars (fst (snd (Line ?X ?q ?g)))) [''x'', ''_''] = [Some (BigRatR 0), Some (BigRatR 2)]"
    "map (cell (snd (snd (Line ?X ?q ?g)))) [0, 2] = [(4, 9), (4, 9)]"
    unfolding second using b1 by simp_all
  ultimately show ?thesis by blast
qed

text \<open>
  An operand that is both the base and the exponent: after \<open>x := 3/2\<close> the line \<open>x ** x\<close>
  raises the numerator to the numerator, 27, and then the denominator to the numerator
  as it is by then, and leaves the result in \<open>x\<close>.
\<close>

lemma Line_power_of_itself:
  "(case Line decimalExternals
        ((NewParser \<lparr> FileName = ''input'', tokens =
           [\<lparr> Type = Identifier, Text = ''x'' \<rparr>, \<lparr> Type = Operator, Text = ''**'' \<rparr>,
            \<lparr> Type = Identifier, Text = ''x'' \<rparr>, \<lparr> Type = Newline, Text = [] \<rparr>] \<rparr>)
         \<lparr> vars := [''x'' \<mapsto> BigRatR 0] \<rparr>)
        \<lparr> cell = (\<lambda>r. (0, 1))(0 := (3, 2)), nextRef = 1 \<rparr> of
      (r, p, s) \<Rightarrow> (r, vars p ''x'', cell s 0, cell s 1))
   = (Inr (Some (BigRatR 1), True), Some (BigRatR 0), (27, 134217728), (27, 134217728))"
  by code_simp

text \<open>
  Claim C9: after \<open>Back t\<close>, \<open>Next\<close> returns \<open>t\<close> and leaves the lexer as it is when the
  kind of \<open>t\<close> is not EOF; when it is EOF, \<open>Next\<close> returns the lexer's next token.
\<close>

theorem Back_then_Next:
  "(Type t \<noteq> EOF \<longrightarrow>
      Next (Back t p) = (t, p\<lparr> peekTok := eofToken \<rparr>)
      \<and> lexer (snd (Next (Back t p))) = lexer p)
   \<and> (Type t = EOF \<longrightarrow>
      Next (Back t p) =
        (fst (lexNext (lexer p)),
         p\<lparr> lexer := snd (lexNext (lexer p)), peekTok := t, curTok := fst (lexNext (lexer p)) \<rparr>))"
  by (simp add: Next_def Back_def Let_def split: prod.splits)

theorem Back_then_Next_witness:
  "Next (Back \<lparr> Type = Operator, Text = ''+'' \<rparr>
           (NewParser \<lparr> FileName = ''input'', tokens = [\<lparr> Type = NumberTok, Text = ''7'' \<rparr>] \<rparr>))
     = (\<lparr> Type = Operator, Text = ''+'' \<rparr>,
        NewParser \<lparr> FileName = ''input'', tokens = [\<lparr> Type = NumberTok, Text = ''7'' \<rparr>] \<rparr>)
   \<and> fst (Next (Back eofToken
           (NewParser \<lparr> FileName = ''input'', tokens = [\<lparr> Type = NumberTok, Text = ''7'' \<rparr>] \<rparr>)))
     = \<lparr> Type = NumberTok, Text = ''7'' \<rparr>"
  using Back_then_Next [of "\<lparr> Type = Operator, Text = ''+'' \<rparr>"
      "NewParser \<lparr> FileName = ''input'', tokens = [\<lparr> Type = NumberTok, Text = ''7'' \<rparr>] \<rparr>"]
    Back_then_Next [of eofToken
      "NewParser \<lparr> FileName = ''input'', tokens = [\<lparr> Type = NumberTok, Text = ''7'' \<rparr>] \<rparr>"]
  by (simp add: NewParser_def eofToken_def lexNext_def)

text \<open>
  Claim C10: let the token given to \<open>NumberOrVector\<close> read as the scalar \<open>x\<close>, and let the
  tokens to come be a run \<open>ts\<close> of number and rational tokens, reading as \<open>xs\<close>, followed by
  nothing or by a token of another kind. If the run is empty the result is \<open>x\<close>, which is
  no vector; otherwise it is the vector of \<open>x\<close> and \<open>xs\<close>, in the order of the input.
\<close>

theorem NumberOrVector_scalar_or_vector:
  assumes "ValueString X (Text tok) = Inr (Inr x)"
    and "upcoming p = ts @ rest"
    and "\<forall>t\<in>set ts. isNumber t"
    and "rest = [] \<or> \<not> isNumber (hd rest)"
    and "list_all2 (\<lambda>t y. ValueString X (Text t) = Inr (Inr y)) ts xs"
  shows "fst (NumberOrVector X tok p) = Inr (if ts = [] then x else Vector (x # xs))
     \<and> whichType x \<noteq> vectorType"
proof
  show "whichType x \<noteq> vectorType" using assms(1) by (rule ValueString_scalar)
  obtain t' p2 where k: "Peek p = (t', p2)" by (cases "Peek p")
  show "fst (NumberOrVector X tok p) = Inr (if ts = [] then x else Vector (x # xs))"
  proof (cases ts)
    case Nil
    have "t' = (case rest of [] \<Rightarrow> eofToken | r # rs \<Rightarrow> r)"
      using Peek_upcoming [of p] k assms(2) Nil by simp
    then have "\<not> isNumber t'"
      using assms(4) by (cases rest) (auto simp: isNumber_def eofToken_def)
    then show ?thesis
      using Nil k by (simp add: NumberOrVector_def Number_parses [OF assms(1)] isNumber_def)
  next
    case (Cons t2 ts2)
    have num: "isNumber t2" using assms(3) Cons by simp
    then have ne2: "Type t2 \<noteq> EOF" by (auto simp: isNumber_def)
    have t': "t' = t2" using Peek_upcoming [of p] k assms(2) Cons by simp
    have u2: "upcoming p2 = ts @ rest"
      using Peek_upcoming_keep [of p t2 "ts2 @ rest"] k assms(2) Cons ne2 by simp
    have "fst (vectorLoop X [x] (Type (hd ts)) p2) = Inr ([x] @ xs)"
      using vectorLoop_run [OF assms(5) assms(3) assms(4) _ u2] Cons by simp
    then show ?thesis
      using Cons k t' num
      by (auto simp add: NumberOrVector_def Number_parses [OF assms(1)] isNumber_def
          ValueSlice_def split: prod.splits sum.splits)
  qed
qed

theorem NumberOrVector_scalar_or_vector_witness:
  "fst (NumberOrVector decimalExternals \<lparr> Type = NumberTok, Text = ''1'' \<rparr>
          (NewParser \<lparr> FileName = ''input'', tokens =
             [\<lparr> Type = Operator, Text = ''+'' \<rparr>, \<lparr> Type = NumberTok, Text = ''2'' \<rparr>] \<rparr>))
     = Inr (IntV 1)
   \<and> fst (NumberOrVector decimalExternals \<lparr> Type = NumberTok, Text = ''1'' \<rparr>
          (NewParser \<lparr> FileName = ''input'', tokens =
             [\<lparr> Type = NumberTok, Text = ''2'' \<rparr>, \<lparr> Type = NumberTok, Text = ''3'' \<rparr>,
              \<lparr> Type = Operator, Text = ''+'' \<rparr>] \<rparr>))
     = Inr (Vector [IntV 1, IntV 2, IntV 3])"
proof -
  have v: "ValueString decimalExternals ''1'' = Inr (Inr (IntV 1))"
    "ValueString decimalExternals ''2'' = Inr (Inr (IntV 2))"
    "ValueString decimalExternals ''3'' = Inr (Inr (IntV 3))"
    by code_simp+
  show ?thesis
    using NumberOrVector_scalar_or_vector [of decimalExternals
        "\<lparr> Type = NumberTok, Text = ''1'' \<rparr>" "IntV 1"
        "NewParser \<lparr> FileName = ''input'', tokens =
             [\<lparr> Type = Operator, Text = ''+'' \<rparr>, \<lparr> Type = NumberTok, Text = ''2'' \<rparr>] \<rparr>"
        "[]" "[\<lparr> Type = Operator, Text = ''+'' \<rparr>, \<lparr> Type = NumberTok, Text = ''2'' \<rparr>]" "[]"]
      NumberOrVector_scalar_or_vector [of decimalExternals
        "\<lparr> Type = NumberTok, Text = ''1'' \<rparr>" "IntV 1"
        "NewParser \<lparr> FileName = ''input'', tokens =
             [\<lparr> Type = NumberTok, Text = ''2'' \<rparr>, \<lparr> Type = NumberTok, Text = ''3'' \<rparr>,
              \<lparr> Type = Operator, Text = ''+'' \<rparr>] \<rparr>"
        "[\<lparr> Type = NumberTok, Text = ''2'' \<rparr>, \<lparr> Type = NumberTok, Text = ''3'' \<rparr>]"
        "[\<lparr> Type = Operator, Text = ''+'' \<rparr>]" "[IntV 2, IntV 3]"]
      v
    by (simp add: upcoming_def NewParser_def eofToken_def isNumber_def)
qed

end
